theory Spec2Isabelle
  imports Main "HOL-Library.AList" "HOL-Library.Char_ord" "HOL-Library.List_Lexorder"
    "HOL-Library.Sublist"
begin

section \<open>Values, exceptions and the environment of the extractor\<close>

text \<open>
  The extractor (\<^verbatim>\<open>database_extractor.py\<close>) is sequential glue code between a PostgreSQL
  connection, the clock and the filesystem. The three are its environment: their answers
  are data of the model, the code's reaction to them is what is verified.

  Python exceptions are values. The code distinguishes two classes only: its handlers
  \<^verbatim>\<open>except Exception\<close> catch every \<open>Error\<close> (with its message) and never a
  \<open>KeyboardInterrupt\<close>, which is a \<^verbatim>\<open>BaseException\<close>.
\<close>

datatype exn = KeyboardInterrupt | Error string

text \<open>
  A column value as the driver hands it over. A float is stood for by its \<^verbatim>\<open>repr\<close>
  text. A list (the driver's type for an SQL array), a tuple and a dict (its type for a
  \<^verbatim>\<open>json\<close> or \<^verbatim>\<open>jsonb\<close> object, whose keys are strings) are stood for by their
  \<^verbatim>\<open>str()\<close> text and their members. An object of any other class is stood for by its
  class and its \<^verbatim>\<open>str()\<close> text; \<open>Date\<close>, \<open>Time\<close> and \<open>Datetime\<close> are the classes of
  \<^verbatim>\<open>datetime\<close> that have an \<^verbatim>\<open>isoformat\<close> method, \<open>Timedelta\<close> (the driver's type for
  SQL intervals) and \<open>Decimal\<close> (its type for SQL numerics) have none.
\<close>

datatype pyclass = Date | Time | Datetime | Timedelta | Decimal | Other

datatype pyval =
    PNone
  | PBool bool
  | PInt int
  | PFloat string
  | PStr string
  | PList string "pyval list"
  | PTuple string "pyval list"
  | PDict string "(string \<times> pyval) list"
  | PObj pyclass string

text \<open>\<^verbatim>\<open>hasattr(value, 'isoformat')\<close>\<close>

fun has_isoformat :: "pyval \<Rightarrow> bool" where
  "has_isoformat (PObj Date s) = True"
| "has_isoformat (PObj Time s) = True"
| "has_isoformat (PObj Datetime s) = True"
| "has_isoformat v = False"

text \<open>
  \<^verbatim>\<open>value.isoformat()\<close>. For a date and a time \<^verbatim>\<open>str\<close> is \<^verbatim>\<open>isoformat\<close>; for a datetime
  \<^verbatim>\<open>str\<close> is \<^verbatim>\<open>isoformat(sep=' ')\<close>, so the ISO text has a \<open>T\<close> where the \<^verbatim>\<open>str\<close> text
  has its (only) blank.
\<close>

fun blank_to_T :: "string \<Rightarrow> string" where
  "blank_to_T [] = []"
| "blank_to_T (c # cs) = (if c = CHR '' '' then CHR ''T'' # cs else c # blank_to_T cs)"

fun isoformat :: "pyval \<Rightarrow> string" where
  "isoformat (PObj Datetime s) = blank_to_T s"
| "isoformat (PObj c s) = s"
| "isoformat v = []"

text \<open>A JSON document, as \<^verbatim>\<open>json.dump\<close> writes it.\<close>

datatype json =
    JNull
  | JBool bool
  | JInt int
  | JFloat string
  | JStr string
  | JList "json list"
  | JObj "(string \<times> json) list"

text \<open>
  \<^verbatim>\<open>json.dump(..., default=str)\<close> on one value: the values JSON knows are written as they
  are, a list or a tuple as an array and a dict as an object of their members, written
  in the same way; every other object goes through \<^verbatim>\<open>default\<close>, that is \<^verbatim>\<open>str\<close>.
\<close>

fun json_of :: "pyval \<Rightarrow> json" where
  "json_of PNone = JNull"
| "json_of (PBool b) = JBool b"
| "json_of (PInt i) = JInt i"
| "json_of (PFloat r) = JFloat r"
| "json_of (PStr s) = JStr s"
| "json_of (PList s vs) = JList (map json_of vs)"
| "json_of (PTuple s vs) = JList (map json_of vs)"
| "json_of (PDict s kvs) = JObj (map (\<lambda>(k, v). (k, json_of v)) kvs)"
| "json_of (PObj c s) = JStr s"

text \<open>What a file holds: text, or a JSON document (its pretty-printing is not modelled).\<close>

datatype content = Text string | JsonDoc json

text \<open>One constructor for each \<^verbatim>\<open>print\<close> statement of the extractor, with its arguments.\<close>

datatype console_line =
    Starting
  | OK_Connected string
  | ERROR_Connection string
  | INFO_Created string
  | INFO_Found nat "string list"
  | TABLE_Info string int nat
  | Exporting_Data
  | Processing string
  | CSV_Exported string
  | WARN_CSV string string
  | JSON_Exported string nat
  | WARN_JSON string string
  | SUMMARY_Generated
  | QUERY_Generated
  | SUCCESS_Completed string
  | WARN_Cancelled
  | ERROR_Failed string

text \<open>\<^verbatim>\<open>str(e)\<close> of a caught exception.\<close>

fun message :: "exn \<Rightarrow> string" where
  "message (Error m) = m"
| "message KeyboardInterrupt = []"

text \<open>A wall-clock reading, \<^verbatim>\<open>datetime.now()\<close>.\<close>

record datetime =
  year :: nat
  month :: nat
  day :: nat
  hour :: nat
  minute :: nat
  second :: nat
  microsecond :: nat

type_synonym result_set = "string list \<times> pyval list list"

text \<open>
  The environment of one run. The server answers from one snapshot:
  \<^item> \<open>connect_failure\<close>: what \<^verbatim>\<open>psycopg2.connect\<close> raises, if anything;
  \<^item> \<open>catalog\<close>: the rows \<open>(table_schema, table_name)\<close> of \<^verbatim>\<open>information_schema.tables\<close>,
    and \<open>catalog_failure\<close>: what a query on it raises, if anything;
  \<^item> \<open>columns_answer t\<close>: the rows \<open>(column_name, data_type, is_nullable)\<close> of
    \<^verbatim>\<open>information_schema.columns\<close> for \<open>t\<close>, in ordinal position;
  \<^item> \<open>select_answer t\<close>: the answer to \<^verbatim>\<open>SELECT * FROM t\<close>, column names
    (\<^verbatim>\<open>cursor.description\<close>) and rows (\<^verbatim>\<open>cursor.fetchall()\<close>), or what it raises;
  \<^item> \<open>sample_answer sql\<close>: the same for the text of a sample query;
  \<^item> \<open>open_failure p\<close>: what \<^verbatim>\<open>open(p, 'w')\<close> raises, if anything;
  \<^item> \<open>makedirs_failure p\<close>: what \<^verbatim>\<open>os.makedirs(p, exist_ok=True)\<close> raises, if anything;
  \<^item> \<open>start_clock\<close>, \<open>report_clock\<close>: the two readings of \<^verbatim>\<open>datetime.now()\<close>.
\<close>

record env =
  connect_failure :: "exn option"
  catalog :: "(string \<times> string) list"
  catalog_failure :: "exn option"
  columns_answer :: "string \<Rightarrow> exn + (string \<times> string \<times> string) list"
  select_answer :: "string \<Rightarrow> exn + result_set"
  sample_answer :: "string \<Rightarrow> exn + result_set"
  open_failure :: "string \<Rightarrow> exn option"
  makedirs_failure :: "string \<Rightarrow> exn option"
  start_clock :: datetime
  report_clock :: datetime

text \<open>
  The answer to \<^verbatim>\<open>SELECT * FROM t LIMIT n\<close>: PostgreSQL rejects a negative limit and
  otherwise cuts the answer of the unrestricted statement after \<open>n\<close> rows.
\<close>

definition select_limit :: "env \<Rightarrow> string \<Rightarrow> int \<Rightarrow> exn + result_set" where
  "select_limit e t n =
     (if n < 0 then Inl (Error ''LIMIT must not be negative'')
      else case select_answer e t of
             Inl x \<Rightarrow> Inl x
           | Inr (column_names, rows) \<Rightarrow> Inr (column_names, take (nat n) rows))"

text \<open>The answer to \<^verbatim>\<open>SELECT COUNT(*) FROM t\<close>.\<close>

definition select_count :: "env \<Rightarrow> string \<Rightarrow> exn + int" where
  "select_count e t =
     (case select_answer e t of
        Inl x \<Rightarrow> Inl x
      | Inr (column_names, rows) \<Rightarrow> Inr (int (length rows)))"

text \<open>
  The state of the extractor and of what it writes to: \<^verbatim>\<open>self.conn\<close>,
  \<^verbatim>\<open>self.output_dir\<close>, the directories and files on disk, the console.
\<close>

datatype connection = NoConnection | OpenConnection | ClosedConnection

record world =
  conn :: connection
  output_dir :: string
  dirs :: "string set"
  files :: "string \<Rightarrow> content option"
  console :: "console_line list"

definition print :: "console_line \<Rightarrow> world \<Rightarrow> world" where
  "print l w = w\<lparr>console := console w @ [l]\<rparr>"

text \<open>\<^verbatim>\<open>self.conn.cursor()\<close>: needs a connection object, and an open one.\<close>

fun cursor :: "connection \<Rightarrow> exn option" where
  "cursor OpenConnection = None"
| "cursor NoConnection = Some (Error ''AttributeError'')"
| "cursor ClosedConnection = Some (Error ''connection already closed'')"

text \<open>\<^verbatim>\<open>DatabaseExtractor.__init__\<close>\<close>

definition init_world :: "(string \<Rightarrow> content option) \<Rightarrow> string set \<Rightarrow> world" where
  "init_world fs ds =
     \<lparr>conn = NoConnection, output_dir = ''database_export'', dirs = ds, files = fs, console = []\<rparr>"

definition database_name :: string where
  "database_name = ''runelite_ai''"

section \<open>Table Exporter: JSON\<close>

text \<open>
  The inner loop of \<^verbatim>\<open>export_table_to_json\<close>, \<^verbatim>\<open>for i, value in enumerate(row)\<close>. The
  row dictionary is an association list in insertion order; a key stored twice keeps its
  place and takes the later value, as a Python \<^verbatim>\<open>dict\<close> does. \<^verbatim>\<open>column_names[i]\<close>
  raises \<^verbatim>\<open>IndexError\<close> out of range.
\<close>

text \<open>The value stored in the row dictionary: the two branches of the \<^verbatim>\<open>if\<close>.\<close>

definition stored_value :: "pyval \<Rightarrow> pyval" where
  "stored_value v = (if has_isoformat v then PStr (isoformat v) else v)"

fun convert_values ::
  "string list \<Rightarrow> nat \<Rightarrow> pyval list \<Rightarrow> (string \<times> pyval) list \<Rightarrow> exn + (string \<times> pyval) list" where
  "convert_values column_names i [] row_dict = Inr row_dict"
| "convert_values column_names i (v # vs) row_dict =
     (if i < length column_names
      then convert_values column_names (Suc i) vs
             (AList.update (column_names ! i) (stored_value v) row_dict)
      else Inl (Error ''IndexError''))"

text \<open>The outer loop, \<^verbatim>\<open>for row in rows\<close>, appending to \<^verbatim>\<open>data\<close>.\<close>

fun convert_rows ::
  "string list \<Rightarrow> pyval list list \<Rightarrow> (string \<times> pyval) list list
     \<Rightarrow> exn + (string \<times> pyval) list list" where
  "convert_rows column_names [] data = Inr data"
| "convert_rows column_names (row # rows) data =
     (case convert_values column_names 0 row [] of
        Inl x \<Rightarrow> Inl x
      | Inr row_dict \<Rightarrow> convert_rows column_names rows (data @ [row_dict]))"

text \<open>\<^verbatim>\<open>json.dump(data, f, indent=2, default=str)\<close>\<close>

definition json_dump :: "(string \<times> pyval) list list \<Rightarrow> json" where
  "json_dump data = JList (map (\<lambda>row_dict. JObj (map (\<lambda>(k, v). (k, json_of v)) row_dict)) data)"

definition json_file :: "world \<Rightarrow> string \<Rightarrow> string" where
  "json_file w table_name = output_dir w @ ''/json/'' @ table_name @ ''.json''"

text \<open>
  The body of the \<^verbatim>\<open>try\<close> block of \<^verbatim>\<open>export_table_to_json\<close>: the exception that
  leaves it, or the number of records written; and the world it leaves behind.
\<close>

definition json_try :: "env \<Rightarrow> string \<Rightarrow> int \<Rightarrow> world \<Rightarrow> (exn + nat) \<times> world" where
  "json_try e table_name limit w =
     (case cursor (conn w) of
        Some x \<Rightarrow> (Inl x, w)
      | None \<Rightarrow>
     (case select_limit e table_name limit of
        Inl x \<Rightarrow> (Inl x, w)
      | Inr (column_names, rows) \<Rightarrow>
     (case convert_rows column_names rows [] of
        Inl x \<Rightarrow> (Inl x, w)
      | Inr data \<Rightarrow>
     (case open_failure e (json_file w table_name) of
        Some x \<Rightarrow> (Inl x, w)
      | None \<Rightarrow>
          (Inr (length data),
           w\<lparr>files := (files w)(json_file w table_name \<mapsto> JsonDoc (json_dump data))\<rparr>)))))"

text \<open>
  \<^verbatim>\<open>export_table_to_json\<close>: \<^verbatim>\<open>except Exception\<close> turns an \<open>Error\<close> into a warning and
  the return value \<^verbatim>\<open>False\<close>; a \<open>KeyboardInterrupt\<close> leaves the function.
\<close>

definition export_table_to_json :: "env \<Rightarrow> string \<Rightarrow> int \<Rightarrow> world \<Rightarrow> (exn + bool) \<times> world" where
  "export_table_to_json e table_name limit w =
     (case json_try e table_name limit w of
        (Inr n, w') \<Rightarrow> (Inr True, print (JSON_Exported table_name n) w')
      | (Inl (Error m), w') \<Rightarrow> (Inr False, print (WARN_JSON table_name m) w')
      | (Inl KeyboardInterrupt, w') \<Rightarrow> (Inl KeyboardInterrupt, w'))"

text \<open>What the JSON document holds for a column value: the stored value, dumped.\<close>

definition written_value :: "pyval \<Rightarrow> json" where
  "written_value v = json_of (stored_value v)"

section \<open>Table Exporter: CSV\<close>

definition CR :: char where "CR = CHR 0x0D"
definition LF :: char where "LF = CHR 0x0A"

text \<open>Decimal digits of a number, for \<^verbatim>\<open>str\<close> of an \<^verbatim>\<open>int\<close>.\<close>

definition digit :: "nat \<Rightarrow> char" where
  "digit n = ''0123456789'' ! n"

fun str_nat :: "nat \<Rightarrow> string" where
  "str_nat n = (if n < 10 then [digit n] else str_nat (n div 10) @ [digit (n mod 10)])"

declare str_nat.simps [simp del]

definition str_int :: "int \<Rightarrow> string" where
  "str_int i = (if i < 0 then CHR ''-'' # str_nat (nat (- i)) else str_nat (nat i))"

text \<open>\<^verbatim>\<open>str(value)\<close>\<close>

fun py_str :: "pyval \<Rightarrow> string" where
  "py_str PNone = ''None''"
| "py_str (PBool b) = (if b then ''True'' else ''False'')"
| "py_str (PInt i) = str_int i"
| "py_str (PFloat r) = r"
| "py_str (PStr s) = s"
| "py_str (PList s vs) = s"
| "py_str (PTuple s vs) = s"
| "py_str (PDict s kvs) = s"
| "py_str (PObj c s) = s"

text \<open>
  The text \<^verbatim>\<open>csv.writer\<close> makes of a field: nothing for \<^verbatim>\<open>None\<close>, the string itself,
  \<^verbatim>\<open>repr\<close> of a float, \<^verbatim>\<open>str\<close> of anything else.
\<close>

fun csv_text :: "pyval \<Rightarrow> string" where
  "csv_text PNone = []"
| "csv_text v = py_str v"

text \<open>
  The default dialect of \<^verbatim>\<open>csv.writer\<close> (\<^verbatim>\<open>excel\<close>, minimal quoting): a field is
  quoted when it holds the delimiter, the quote character or a character of the line
  terminator; a quote character inside is doubled. A record is its fields joined by
  commas; a record of one empty field is written as two quote characters.
\<close>

definition needs_quotes :: "string \<Rightarrow> bool" where
  "needs_quotes s = (\<exists>c \<in> set s. c = CHR '','' \<or> c = CHR 0x22 \<or> c = CR \<or> c = LF)"

definition quoted :: "string \<Rightarrow> string" where
  "quoted s = CHR 0x22 # concat (map (\<lambda>c. if c = CHR 0x22 then [c, c] else [c]) s) @ [CHR 0x22]"

definition csv_field :: "string \<Rightarrow> string" where
  "csv_field s = (if needs_quotes s then quoted s else s)"

fun join :: "string \<Rightarrow> string list \<Rightarrow> string" where
  "join sep [] = []"
| "join sep [s] = s"
| "join sep (s # t # ss) = s @ sep @ join sep (t # ss)"

definition csv_record :: "string list \<Rightarrow> string" where
  "csv_record cells =
     (if cells = [[]] then [CHR 0x22, CHR 0x22] else join '','' (map csv_field cells))"

text \<open>\<^verbatim>\<open>writer.writerow\<close>: the record and the line terminator \<^verbatim>\<open>\r\n\<close>.\<close>

definition writerow :: "string list \<Rightarrow> string" where
  "writerow cells = csv_record cells @ [CR, LF]"

text \<open>\<^verbatim>\<open>writer.writerows\<close>\<close>

definition writerows :: "pyval list list \<Rightarrow> string" where
  "writerows rows = concat (map (\<lambda>row. writerow (map csv_text row)) rows)"

definition csv_file :: "world \<Rightarrow> string \<Rightarrow> string" where
  "csv_file w table_name = output_dir w @ ''/csv/'' @ table_name @ ''.csv''"

text \<open>The body of the \<^verbatim>\<open>try\<close> block of \<^verbatim>\<open>export_table_to_csv\<close>.\<close>

definition csv_try :: "env \<Rightarrow> string \<Rightarrow> world \<Rightarrow> (exn + unit) \<times> world" where
  "csv_try e table_name w =
     (case cursor (conn w) of
        Some x \<Rightarrow> (Inl x, w)
      | None \<Rightarrow>
     (case select_answer e table_name of
        Inl x \<Rightarrow> (Inl x, w)
      | Inr (column_names, rows) \<Rightarrow>
     (case open_failure e (csv_file w table_name) of
        Some x \<Rightarrow> (Inl x, w)
      | None \<Rightarrow>
          (Inr (),
           w\<lparr>files := (files w)(csv_file w table_name \<mapsto>
                         Text (writerow column_names @ writerows rows))\<rparr>))))"

text \<open>\<^verbatim>\<open>export_table_to_csv\<close>\<close>

definition export_table_to_csv :: "env \<Rightarrow> string \<Rightarrow> world \<Rightarrow> (exn + bool) \<times> world" where
  "export_table_to_csv e table_name w =
     (case csv_try e table_name w of
        (Inr u, w') \<Rightarrow> (Inr True, print (CSV_Exported table_name) w')
      | (Inl (Error m), w') \<Rightarrow> (Inr False, print (WARN_CSV table_name m) w')
      | (Inl KeyboardInterrupt, w') \<Rightarrow> (Inl KeyboardInterrupt, w'))"

text \<open>
  The lines of a text as a reader with universal newlines sees them: a line ends at
  \<^verbatim>\<open>\n\<close>, at \<^verbatim>\<open>\r\n\<close> or at a lone \<^verbatim>\<open>\r\<close>. The first argument is the line read so far.
\<close>

fun splitlines :: "string \<Rightarrow> string \<Rightarrow> string list" where
  "splitlines cur [] = (if cur = [] then [] else [cur])"
| "splitlines cur [c] = (if c = LF \<or> c = CR then [cur] else [cur @ [c]])"
| "splitlines cur (c # d # ds) =
     (if c = LF then cur # splitlines [] (d # ds)
      else if c = CR then (if d = LF then cur # splitlines [] ds else cur # splitlines [] (d # ds))
      else splitlines (cur @ [c]) (d # ds))"

definition lines_of :: "string \<Rightarrow> string list" where
  "lines_of s = splitlines [] s"

text \<open>The lines of the text file at a path, if there is one.\<close>

definition file_lines :: "world \<Rightarrow> string \<Rightarrow> string list option" where
  "file_lines w p = (case files w p of Some (Text s) \<Rightarrow> Some (lines_of s) | _ \<Rightarrow> None)"

section \<open>Connection Provider and output directory\<close>

text \<open>
  \<^verbatim>\<open>connect\<close>: reports a failure and raises it again. The rules of dashes and of equals
  signs that the extractor prints around its messages are part of the neighbouring line.
\<close>

definition connect :: "env \<Rightarrow> world \<Rightarrow> (exn + unit) \<times> world" where
  "connect e w =
     (case connect_failure e of
        None \<Rightarrow> (Inr (), print (OK_Connected database_name) (w\<lparr>conn := OpenConnection\<rparr>))
      | Some (Error m) \<Rightarrow> (Inl (Error m), print (ERROR_Connection m) w)
      | Some KeyboardInterrupt \<Rightarrow> (Inl KeyboardInterrupt, w))"

text \<open>A number in decimal, padded with zeros on the left to a width: \<^verbatim>\<open>%02d\<close>, \<^verbatim>\<open>%04d\<close>.\<close>

definition zfill :: "nat \<Rightarrow> string \<Rightarrow> string" where
  "zfill width s = replicate (width - length s) (CHR ''0'') @ s"

text \<open>\<^verbatim>\<open>strftime('%Y%m%d_%H%M%S')\<close>: the reading down to the second.\<close>

definition strftime :: "datetime \<Rightarrow> string" where
  "strftime d =
     zfill 4 (str_nat (year d)) @ zfill 2 (str_nat (month d)) @ zfill 2 (str_nat (day d))
     @ ''_''
     @ zfill 2 (str_nat (hour d)) @ zfill 2 (str_nat (minute d)) @ zfill 2 (str_nat (second d))"



text \<open>The loop \<^verbatim>\<open>for directory in directories: os.makedirs(directory, exist_ok=True)\<close>.\<close>

fun makedirs_all :: "env \<Rightarrow> string list \<Rightarrow> world \<Rightarrow> (exn + unit) \<times> world" where
  "makedirs_all e [] w = (Inr (), w)"
| "makedirs_all e (directory # directories) w =
     (case makedirs_failure e directory of
        Some x \<Rightarrow> (Inl x, w)
      | None \<Rightarrow> makedirs_all e directories (w\<lparr>dirs := insert directory (dirs w)\<rparr>))"

text \<open>\<^verbatim>\<open>create_output_structure\<close>\<close>

definition create_output_structure :: "env \<Rightarrow> world \<Rightarrow> (exn + unit) \<times> world" where
  "create_output_structure e w =
     (let timestamp = strftime (start_clock e);
          w1 = w\<lparr>output_dir := ''database_export_'' @ timestamp\<rparr>;
          directories = [output_dir w1, output_dir w1 @ ''/csv'', output_dir w1 @ ''/json'',
                         output_dir w1 @ ''/summary'', output_dir w1 @ ''/raw_sql'']
      in case makedirs_all e directories w1 of
           (Inl x, w2) \<Rightarrow> (Inl x, w2)
         | (Inr u, w2) \<Rightarrow> (Inr (), print (INFO_Created (output_dir w2)) w2))"

section \<open>Schema Inspector\<close>

text \<open>
  The SQL operator \<^verbatim>\<open>LIKE\<close>, text first, pattern second: \<open>%\<close> stands for any run of
  characters, \<open>_\<close> for any one character, every other character for itself (the escape
  character does not occur in the pattern of the extractor).
\<close>

fun like :: "string \<Rightarrow> string \<Rightarrow> bool" where
  "like [] [] = True"
| "like (c # cs) [] = False"
| "like [] (p # ps) = (p = CHR ''%'' \<and> like [] ps)"
| "like (c # cs) (p # ps) =
     (if p = CHR ''%'' then like (c # cs) ps \<or> like cs (p # ps)
      else if p = CHR ''_'' then like cs ps
      else c = p \<and> like cs ps)"

text \<open>
  The answer to the statement of \<^verbatim>\<open>get_all_tables\<close>,
  \<^verbatim>\<open>SELECT table_name FROM information_schema.tables WHERE table_schema = 'public'
  AND table_name NOT LIKE 'pg_%' ORDER BY table_name\<close>.
\<close>

definition select_tables :: "env \<Rightarrow> exn + string list" where
  "select_tables e =
     (case catalog_failure e of
        Some x \<Rightarrow> Inl x
      | None \<Rightarrow>
          Inr (sort (map snd (filter (\<lambda>(table_schema, table_name).
                 table_schema = ''public'' \<and> \<not> like table_name ''pg_%'') (catalog e)))))"

text \<open>\<^verbatim>\<open>get_all_tables\<close>\<close>

definition get_all_tables :: "env \<Rightarrow> world \<Rightarrow> (exn + string list) \<times> world" where
  "get_all_tables e w =
     (case cursor (conn w) of
        Some x \<Rightarrow> (Inl x, w)
      | None \<Rightarrow>
     (case select_tables e of
        Inl x \<Rightarrow> (Inl x, w)
      | Inr names \<Rightarrow> (Inr names, print (INFO_Found (length names) names) w)))"

text \<open>A Table Descriptor, the dictionary \<^verbatim>\<open>get_table_info\<close> returns.\<close>

record table_info =
  columns :: "(string \<times> string \<times> string) list"
  row_count :: int

text \<open>\<^verbatim>\<open>get_table_info\<close>\<close>

definition get_table_info :: "env \<Rightarrow> string \<Rightarrow> world \<Rightarrow> (exn + table_info) \<times> world" where
  "get_table_info e table_name w =
     (case cursor (conn w) of
        Some x \<Rightarrow> (Inl x, w)
      | None \<Rightarrow>
     (case columns_answer e table_name of
        Inl x \<Rightarrow> (Inl x, w)
      | Inr cols \<Rightarrow>
     (case select_count e table_name of
        Inl x \<Rightarrow> (Inl x, w)
      | Inr n \<Rightarrow> (Inr \<lparr>columns = cols, row_count = n\<rparr>, w))))"

section \<open>Summary Reporter\<close>

text \<open>The Summary Document, the dictionary \<^verbatim>\<open>summary\<close>, and its entry for one table.\<close>

record column_entry =
  name :: string
  type :: string
  nullable :: string

record table_entry =
  entry_row_count :: int
  column_count :: nat
  entry_columns :: "column_entry list"

record summary =
  export_timestamp :: string
  database_info :: string
  total_tables :: nat
  tables :: "(string \<times> table_entry) list"
  total_rows :: int

text \<open>\<^verbatim>\<open>datetime.isoformat()\<close> of a clock reading.\<close>

definition clock_isoformat :: "datetime \<Rightarrow> string" where
  "clock_isoformat d =
     zfill 4 (str_nat (year d)) @ ''-'' @ zfill 2 (str_nat (month d)) @ ''-''
     @ zfill 2 (str_nat (day d)) @ ''T''
     @ zfill 2 (str_nat (hour d)) @ '':'' @ zfill 2 (str_nat (minute d)) @ '':''
     @ zfill 2 (str_nat (second d))
     @ (if microsecond d = 0 then [] else ''.'' @ zfill 6 (str_nat (microsecond d)))"

text \<open>The format \<^verbatim>\<open>{:,}\<close>: decimal digits in groups of three.\<close>

fun group3 :: "string \<Rightarrow> string" where
  "group3 (a # b # c # d # rest) = a # b # c # CHR '','' # group3 (d # rest)"
| "group3 s = s"

definition commas :: "int \<Rightarrow> string" where
  "commas i =
     (if i < 0 then CHR ''-'' # rev (group3 (rev (str_nat (nat (- i)))))
      else rev (group3 (rev (str_nat (nat i)))))"

definition table_entry_of :: "table_info \<Rightarrow> table_entry" where
  "table_entry_of info =
     \<lparr>entry_row_count = row_count info,
      column_count = length (columns info),
      entry_columns = map (\<lambda>(c0, c1, c2). \<lparr>name = c0, type = c1, nullable = c2\<rparr>) (columns info)\<rparr>"

text \<open>
  The loop \<^verbatim>\<open>for table_name, info in tables_info.items()\<close> of
  \<^verbatim>\<open>generate_summary_report\<close>, with the dictionary \<^verbatim>\<open>summary['tables']\<close> and the
  counter \<^verbatim>\<open>total_rows\<close> it updates.
\<close>

fun summarise ::
  "(string \<times> table_info) list \<Rightarrow> (string \<times> table_entry) list \<Rightarrow> int
     \<Rightarrow> (string \<times> table_entry) list \<times> int" where
  "summarise [] entries rows_so_far = (entries, rows_so_far)"
| "summarise ((table_name, info) # rest) entries rows_so_far =
     summarise rest (AList.update table_name (table_entry_of info) entries)
       (rows_so_far + row_count info)"

text \<open>The Summary Document that \<^verbatim>\<open>generate_summary_report\<close> builds.\<close>

definition build_summary :: "env \<Rightarrow> (string \<times> table_info) list \<Rightarrow> summary" where
  "build_summary e tables_info =
     (case summarise tables_info [] 0 of
        (entries, rows) \<Rightarrow>
          \<lparr>export_timestamp = clock_isoformat (report_clock e),
           database_info = database_name,
           total_tables = length tables_info,
           tables = entries,
           total_rows = rows\<rparr>)"

text \<open>\<^verbatim>\<open>json.dump(summary, f, indent=2)\<close>\<close>

definition summary_json :: "summary \<Rightarrow> json" where
  "summary_json s =
     JObj [(''export_timestamp'', JStr (export_timestamp s)),
           (''database_info'', JStr (database_info s)),
           (''total_tables'', JInt (int (total_tables s))),
           (''tables'', JObj (map (\<lambda>(table_name, entry).
              (table_name,
               JObj [(''row_count'', JInt (entry_row_count entry)),
                     (''column_count'', JInt (int (column_count entry))),
                     (''columns'', JList (map (\<lambda>col.
                        JObj [(''name'', JStr (name col)), (''type'', JStr (type col)),
                              (''nullable'', JStr (nullable col))]) (entry_columns entry)))]))
              (tables s))),
           (''total_rows'', JInt (total_rows s))]"

text \<open>The readable report, \<^verbatim>\<open>database_summary.txt\<close>.\<close>

definition summary_text :: "summary \<Rightarrow> string" where
  "summary_text s =
     ''RuneLiteAI Database Export Summary'' @ [LF] @ replicate 50 (CHR ''='') @ [LF, LF]
     @ ''Export Time: '' @ export_timestamp s @ [LF]
     @ ''Database: '' @ database_info s @ [LF]
     @ ''Total Tables: '' @ str_nat (total_tables s) @ [LF]
     @ ''Total Rows: '' @ commas (total_rows s) @ [LF, LF]
     @ concat (map (\<lambda>(table_name, entry).
         ''Table: '' @ table_name @ [LF]
         @ ''  Rows: '' @ commas (entry_row_count entry) @ [LF]
         @ ''  Columns: '' @ str_nat (column_count entry) @ [LF]
         @ concat (map (\<lambda>col. ''    - '' @ name col @ '' ('' @ type col @ '')'' @ [LF])
             (entry_columns entry))
         @ [LF]) (tables s))"

text \<open>\<^verbatim>\<open>generate_summary_report\<close>: an error of either \<^verbatim>\<open>open\<close> leaves the function.\<close>

definition generate_summary_report ::
  "env \<Rightarrow> (string \<times> table_info) list \<Rightarrow> world \<Rightarrow> (exn + unit) \<times> world" where
  "generate_summary_report e tables_info w =
     (let s = build_summary e tables_info;
          summary_file = output_dir w @ ''/summary/database_summary.json'';
          readable_file = output_dir w @ ''/summary/database_summary.txt''
      in case open_failure e summary_file of
           Some x \<Rightarrow> (Inl x, w)
         | None \<Rightarrow>
             (let w1 = w\<lparr>files := (files w)(summary_file \<mapsto> JsonDoc (summary_json s))\<rparr>
              in case open_failure e readable_file of
                   Some x \<Rightarrow> (Inl x, w1)
                 | None \<Rightarrow>
                     (Inr (), print SUMMARY_Generated
                        (w1\<lparr>files := (files w1)(readable_file \<mapsto> Text (summary_text s))\<rparr>))))"

section \<open>Sample Query Runner\<close>

text \<open>
  The dictionary \<^verbatim>\<open>queries\<close>, in insertion order. The SQL texts are given with their
  white space normalised, so \<^verbatim>\<open>query_sql.strip()\<close> is the text itself.
\<close>

definition queries :: "(string \<times> string) list" where
  "queries =
     [(''sessions_overview'',
       ''SELECT session_id, player_name, start_time, end_time, EXTRACT(EPOCH FROM (end_time - start_time))/60 as duration_minutes FROM sessions ORDER BY start_time DESC LIMIT 10;''),
      (''tick_performance'',
       ''SELECT session_id, AVG(processing_time_ms) as avg_processing_ms, COUNT(*) as tick_count, MIN(processing_time_ms) as min_processing_ms, MAX(processing_time_ms) as max_processing_ms FROM game_ticks GROUP BY session_id ORDER BY avg_processing_ms DESC;''),
      (''player_locations'',
       ''SELECT world_x, world_y, plane, COUNT(*) as frequency FROM player_location GROUP BY world_x, world_y, plane ORDER BY frequency DESC LIMIT 20;''),
      (''recent_activity'',
       ''SELECT gt.session_id, gt.tick_number, gt.timestamp, gt.processing_time_ms, pl.world_x, pl.world_y, pl.plane FROM game_ticks gt LEFT JOIN player_location pl ON gt.session_id = pl.session_id AND gt.tick_number = pl.tick_number ORDER BY gt.timestamp DESC LIMIT 100;'')]"

text \<open>What is written before a query is executed: its name, a rule, its SQL text.\<close>

definition query_heading :: "string \<Rightarrow> string \<Rightarrow> string" where
  "query_heading query_name query_sql =
     ''Query: '' @ query_name @ [LF] @ replicate 30 (CHR ''-'') @ [LF]
     @ ''SQL: '' @ query_sql @ [LF, LF]"

text \<open>What is written for the rows of an answer.\<close>

definition query_results :: "result_set \<Rightarrow> string" where
  "query_results r =
     (case r of (column_names, results) \<Rightarrow>
        ''Results ('' @ str_nat (length results) @ '' rows):'' @ [LF]
        @ join '' | '' column_names @ [LF]
        @ replicate 80 (CHR ''-'') @ [LF]
        @ concat (map (\<lambda>row. join '' | '' (map py_str row) @ [LF]) results)
        @ [LF] @ replicate 80 (CHR ''='') @ [LF, LF])"

text \<open>What the handler \<^verbatim>\<open>except Exception as e\<close> writes.\<close>

definition query_error :: "string \<Rightarrow> string" where
  "query_error m = ''Error executing query: '' @ m @ [LF, LF]"

text \<open>
  The loop \<^verbatim>\<open>for query_name, query_sql in queries.items()\<close> with its \<^verbatim>\<open>try\<close>; the
  last argument is the text of the results file so far. The result is the exception that
  leaves the loop, if any, and the text written.
\<close>

fun run_queries :: "env \<Rightarrow> (string \<times> string) list \<Rightarrow> string \<Rightarrow> exn option \<times> string" where
  "run_queries e [] f = (None, f)"
| "run_queries e ((query_name, query_sql) # rest) f =
     (case sample_answer e query_sql of
        Inr r \<Rightarrow>
          run_queries e rest (f @ query_heading query_name query_sql @ query_results r)
      | Inl (Error m) \<Rightarrow>
          run_queries e rest (f @ query_heading query_name query_sql @ query_error m)
      | Inl KeyboardInterrupt \<Rightarrow>
          (Some KeyboardInterrupt, f @ query_heading query_name query_sql))"

definition results_file :: "world \<Rightarrow> string" where
  "results_file w = output_dir w @ ''/summary/sample_queries_results.txt''"

definition results_title :: string where
  "results_title =
     ''RuneLiteAI Database Sample Query Results'' @ [LF] @ replicate 50 (CHR ''='') @ [LF, LF]"

text \<open>
  \<^verbatim>\<open>export_sample_queries\<close>. The file is opened first; what has been written when an
  exception leaves the \<^verbatim>\<open>with\<close> block stays in the file.
\<close>

definition export_sample_queries :: "env \<Rightarrow> world \<Rightarrow> (exn + unit) \<times> world" where
  "export_sample_queries e w =
     (case open_failure e (results_file w) of
        Some x \<Rightarrow> (Inl x, w)
      | None \<Rightarrow>
     (case cursor (conn w) of
        Some x \<Rightarrow> (Inl x, w\<lparr>files := (files w)(results_file w \<mapsto> Text results_title)\<rparr>)
      | None \<Rightarrow>
     (case run_queries e queries results_title of
        (Some x, f) \<Rightarrow> (Inl x, w\<lparr>files := (files w)(results_file w \<mapsto> Text f)\<rparr>)
      | (None, f) \<Rightarrow>
          (Inr (), print QUERY_Generated (w\<lparr>files := (files w)(results_file w \<mapsto> Text f)\<rparr>)))))"

section \<open>Orchestrator\<close>

text \<open>The loop of \<^verbatim>\<open>run_extraction\<close> that collects the Table Descriptors.\<close>

fun collect_info ::
  "env \<Rightarrow> string list \<Rightarrow> (string \<times> table_info) list \<Rightarrow> world
     \<Rightarrow> (exn + (string \<times> table_info) list) \<times> world" where
  "collect_info e [] tables_info w = (Inr tables_info, w)"
| "collect_info e (table # rest) tables_info w =
     (case get_table_info e table w of
        (Inl x, w1) \<Rightarrow> (Inl x, w1)
      | (Inr info, w1) \<Rightarrow>
          collect_info e rest (AList.update table info tables_info)
            (print (TABLE_Info table (row_count info) (length (columns info))) w1))"

text \<open>
  The export loop of \<^verbatim>\<open>run_extraction\<close>: the return values of the two exports are
  dropped, an exception that leaves one of them leaves the loop.
\<close>

fun export_loop :: "env \<Rightarrow> string list \<Rightarrow> world \<Rightarrow> (exn + unit) \<times> world" where
  "export_loop e [] w = (Inr (), w)"
| "export_loop e (table # rest) w =
     (case export_table_to_csv e table (print (Processing table) w) of
        (Inl x, w1) \<Rightarrow> (Inl x, w1)
      | (Inr csv_ok, w1) \<Rightarrow>
     (case export_table_to_json e table 1000 w1 of
        (Inl x, w2) \<Rightarrow> (Inl x, w2)
      | (Inr json_ok, w2) \<Rightarrow> export_loop e rest w2))"

text \<open>
  \<^verbatim>\<open>run_extraction\<close>, up to the banner of success. The listing of the generated files
  that follows the banner only reads the disk and prints; it is not modelled.
\<close>

definition run_extraction :: "env \<Rightarrow> world \<Rightarrow> (exn + unit) \<times> world" where
  "run_extraction e w0 =
     (case connect e (print Starting w0) of
        (Inl x, w1) \<Rightarrow> (Inl x, w1)
      | (Inr u1, w1) \<Rightarrow>
     (case create_output_structure e w1 of
        (Inl x, w2) \<Rightarrow> (Inl x, w2)
      | (Inr u2, w2) \<Rightarrow>
     (case get_all_tables e w2 of
        (Inl x, w3) \<Rightarrow> (Inl x, w3)
      | (Inr names, w3) \<Rightarrow>
     (case collect_info e names [] w3 of
        (Inl x, w4) \<Rightarrow> (Inl x, w4)
      | (Inr tables_info, w4) \<Rightarrow>
     (case export_loop e names (print Exporting_Data w4) of
        (Inl x, w5) \<Rightarrow> (Inl x, w5)
      | (Inr u5, w5) \<Rightarrow>
     (case generate_summary_report e tables_info w5 of
        (Inl x, w6) \<Rightarrow> (Inl x, w6)
      | (Inr u6, w6) \<Rightarrow>
     (case export_sample_queries e w6 of
        (Inl x, w7) \<Rightarrow> (Inl x, w7)
      | (Inr u7, w7) \<Rightarrow>
          (Inr (), print (SUCCESS_Completed (output_dir w7))
                     (w7\<lparr>conn := ClosedConnection\<rparr>)))))))))"

text \<open>
  The script: a new extractor on the disk as it is, \<^verbatim>\<open>run_extraction\<close> under the two
  handlers. None of the three paths sets an exit status: the script ends by running off
  its last line, and the status of the process is zero.
\<close>

definition main :: "env \<Rightarrow> (string \<Rightarrow> content option) \<Rightarrow> string set \<Rightarrow> nat \<times> world" where
  "main e fs ds =
     (case run_extraction e (init_world fs ds) of
        (Inr u, w) \<Rightarrow> (0, w)
      | (Inl KeyboardInterrupt, w) \<Rightarrow> (0, print WARN_Cancelled w)
      | (Inl (Error m), w) \<Rightarrow> (0, print (ERROR_Failed m) w))"


definition under :: "string \<Rightarrow> string \<Rightarrow> bool" where
  "under directory p = prefix (directory @ ''/'') p"





section \<open>A small database, for the scenarios\<close>

text \<open>
  Two tables in schema \<open>public\<close>: \<open>sessions\<close> with two rows and \<open>game_ticks\<close> with none.
  A third relation, \<open>purchases\<close>, is not in the catalog but can be read: one row with a
  numeric, a text, an interval and a text of two lines. So can a fourth, \<open>profiles\<close>: one
  row with an integer, a text, a timestamp, a numeric, an array of integers, an array of
  timestamps and a \<^verbatim>\<open>jsonb\<close> object. Every other relation name is unknown to the server.
\<close>

definition demo_select :: "string \<Rightarrow> exn + result_set" where
  "demo_select t =
     (if t = ''sessions''
      then Inr ([''session_id'', ''player_name'', ''start_time''],
                [[PInt 1, PStr ''ann'', PObj Datetime ''2024-01-05 10:00:00''],
                 [PInt 2, PStr ''bob'', PNone]])
      else if t = ''game_ticks'' then Inr ([''tick_number''], [])
      else if t = ''purchases''
      then Inr ([''price'', ''label'', ''duration'', ''note''],
                [[PObj Decimal ''1.50'', PStr ''1.50'', PObj Timedelta ''1 day, 0:00:00'',
                  PStr (''two'' @ [LF] @ ''lines'')]])
      else if t = ''profiles''
      then Inr ([''session_id'', ''player_name'', ''start_time'', ''price'', ''scores'', ''seen'',
                 ''meta''],
                [[PInt 1, PStr ''ann'', PObj Datetime ''2024-01-05 10:00:00'', PObj Decimal ''1.50'',
                  PList ''[1, 2]'' [PInt 1, PInt 2],
                  PList ''[datetime.datetime(2024, 1, 5, 10, 0)]''
                    [PObj Datetime ''2024-01-05 10:00:00''],
                  PDict ''{'level': 3, 'tags': [None, True]}''
                    [(''level'', PInt 3),
                     (''tags'', PList ''[None, True]'' [PNone, PBool True])]]])
      else Inl (Error ''relation does not exist''))"

definition demo_columns :: "string \<Rightarrow> exn + (string \<times> string \<times> string) list" where
  "demo_columns t =
     (if t = ''sessions''
      then Inr [(''session_id'', ''integer'', ''NO''), (''player_name'', ''text'', ''YES''),
                (''start_time'', ''timestamp without time zone'', ''YES'')]
      else if t = ''game_ticks'' then Inr [(''tick_number'', ''integer'', ''NO'')]
      else Inr [])"

definition demo_clock :: datetime where
  "demo_clock = \<lparr>year = 2024, month = 1, day = 5, hour = 10, minute = 0, second = 0,
                 microsecond = 250000\<rparr>"

definition demo_env :: env where
  "demo_env =
     \<lparr>connect_failure = None,
      catalog = [(''public'', ''sessions''), (''public'', ''game_ticks'')],
      catalog_failure = None,
      columns_answer = demo_columns,
      select_answer = demo_select,
      sample_answer = (\<lambda>sql. Inl (Error ''relation does not exist'')),
      open_failure = (\<lambda>p. None),
      makedirs_failure = (\<lambda>p. None),
      start_clock = demo_clock,
      report_clock = demo_clock\<lparr>second := 1\<rparr>\<rparr>"

text \<open>
  A server that answers the first two sample queries (one session, no tick), has no
  relation \<open>player_location\<close> for the third, and rejects every later statement of the
  transaction that the third has broken.
\<close>

definition query_env :: env where
  "query_env =
     demo_env\<lparr>sample_answer := (\<lambda>sql.
        if sql = snd (queries ! 0)
        then Inr ([''session_id'', ''player_name'', ''start_time'', ''end_time'', ''duration_minutes''],
                  [[PInt 1, PStr ''ann'', PObj Datetime ''2024-01-05 10:00:00'', PNone, PNone]])
        else if sql = snd (queries ! 1)
        then Inr ([''session_id'', ''avg_processing_ms'', ''tick_count'', ''min_processing_ms'',
                   ''max_processing_ms''], [])
        else if sql = snd (queries ! 2)
        then Inl (Error ''relation player_location does not exist'')
        else Inl (Error ''current transaction is aborted''))\<rparr>"



text \<open>A server that cannot be reached.\<close>

definition unreachable_env :: env where
  "unreachable_env = demo_env\<lparr>connect_failure := Some (Error ''connection refused'')\<rparr>"

text \<open>
  The same server after \<^verbatim>\<open>pgbench -i\<close> has created its table \<open>pgbench_accounts\<close> in schema
  \<open>public\<close>; the catalog also lists the system table \<open>pg_class\<close> of schema \<open>pg_catalog\<close>.
\<close>

definition pgbench_env :: env where
  "pgbench_env =
     demo_env\<lparr>catalog := [(''public'', ''sessions''), (''public'', ''pgbench_accounts''),
                          (''pg_catalog'', ''pg_class''), (''public'', ''game_ticks'')],
              select_answer := (\<lambda>t. if t = ''pgbench_accounts''
                                    then Inr ([''aid'', ''abalance''], [[PInt 1, PInt 0]])
                                    else demo_select t)\<rparr>"

text \<open>The extractor after \<^verbatim>\<open>connect\<close> and \<^verbatim>\<open>create_output_structure\<close>, on an empty disk.\<close>

definition demo_world :: world where
  "demo_world =
     \<lparr>conn = OpenConnection, output_dir = ''database_export_20240105_100000'', dirs = {},
      files = Map.empty, console = []\<rparr>"

section \<open>Properties of the JSON export\<close>

lemma json_try_Inr:
  "json_try e t l w = (Inr n, w') \<Longrightarrow>
     \<exists>cols rows data. select_limit e t l = Inr (cols, rows) \<and> convert_rows cols rows [] = Inr data
        \<and> n = length data
        \<and> w' = w\<lparr>files := (files w)(json_file w t \<mapsto> JsonDoc (json_dump data))\<rparr>"
  by (auto simp: json_try_def split: option.splits sum.splits prod.splits)

lemma convert_rows_acc:
  "convert_rows cols rows data = Inr out \<Longrightarrow>
     \<exists>ds. out = data @ ds \<and> list_all2 (\<lambda>row d. convert_values cols 0 row [] = Inr d) rows ds"
proof (induction rows arbitrary: data)
  case Nil
  then show ?case by simp
next
  case (Cons row rows)
  then obtain d where d: "convert_values cols 0 row [] = Inr d"
    and r: "convert_rows cols rows (data @ [d]) = Inr out"
    by (auto split: sum.splits)
  from Cons.IH [OF r] obtain ds where "out = (data @ [d]) @ ds"
    "list_all2 (\<lambda>row d. convert_values cols 0 row [] = Inr d) rows ds" by blast
  with d show ?case by (intro exI [of _ "d # ds"]) simp
qed

lemma update_fresh: "k \<notin> fst ` set al \<Longrightarrow> AList.update k v al = al @ [(k, v)]"
  by (induction al) auto

lemma convert_values_distinct:
  "distinct cols \<Longrightarrow> i + length vs \<le> length cols \<Longrightarrow> fst ` set acc = set (take i cols) \<Longrightarrow>
   convert_values cols i vs acc = Inr (acc @ zip (drop i cols) (map stored_value vs))"
proof (induction vs arbitrary: i acc)
  case Nil
  then show ?case by simp
next
  case (Cons v vs)
  then have i: "i < length cols" by simp
  have fresh: "cols ! i \<notin> fst ` set acc"
    using Cons.prems i by (auto simp: in_set_conv_nth distinct_conv_nth)
  have keys: "fst ` set (acc @ [(cols ! i, stored_value v)]) = set (take (Suc i) cols)"
    using Cons.prems i by (simp add: take_Suc_conv_app_nth)
  have "convert_values cols (Suc i) vs (acc @ [(cols ! i, stored_value v)])
        = Inr ((acc @ [(cols ! i, stored_value v)]) @ zip (drop (Suc i) cols) (map stored_value vs))"
    using Cons.prems by (intro Cons.IH keys) auto
  moreover have "drop i cols = cols ! i # drop (Suc i) cols"
    using i by (simp add: Cons_nth_drop_Suc)
  ultimately show ?case using i fresh by (simp add: update_fresh)
qed

text \<open>
  Claim C10. \<^verbatim>\<open>export_table_to_json\<close> opens its output file after the statement has been
  answered and every row converted: when the \<^verbatim>\<open>SELECT\<close> fails, or the conversion of a row
  fails, the call leaves the files and directories as they were and does not report success.
\<close>

theorem json_failure_writes_nothing:
  assumes "select_limit e t limit = Inl x
           \<or> (\<exists>cols rows. select_limit e t limit = Inr (cols, rows) \<and> convert_rows cols rows [] = Inl x)"
  shows "files (snd (export_table_to_json e t limit w)) = files w
         \<and> dirs (snd (export_table_to_json e t limit w)) = dirs w
         \<and> fst (export_table_to_json e t limit w) \<noteq> Inr True"
proof -
  from assms have "\<exists>y. json_try e t limit w = (Inl y, w)"
    by (auto simp: json_try_def split: option.splits sum.splits)
  then obtain y where "json_try e t limit w = (Inl y, w)" by blast
  then show ?thesis
    by (cases y) (simp_all add: export_table_to_json_def print_def)
qed

theorem json_failure_writes_nothing_witness:
  "select_limit demo_env ''players'' 1000 = Inl (Error ''relation does not exist'')
   \<and> files (snd (export_table_to_json demo_env ''players'' 1000 demo_world)) = files demo_world
   \<and> dirs (snd (export_table_to_json demo_env ''players'' 1000 demo_world)) = dirs demo_world
   \<and> fst (export_table_to_json demo_env ''players'' 1000 demo_world) \<noteq> Inr True"
proof -
  have h: "select_limit demo_env ''players'' 1000 = Inl (Error ''relation does not exist'')"
    by (simp add: select_limit_def demo_env_def demo_select_def)
  from h json_failure_writes_nothing [of demo_env "''players''" 1000 "Error ''relation does not exist''" demo_world]
  show ?thesis by blast
qed




text \<open>
  Claim C5, as amended. With distinct column names and a row of as many values, the record
  written for the row pairs every column name with the written form of its value: the
  \<^verbatim>\<open>isoformat\<close> text for a value that has that method (a date, a time, a datetime);
  \<^verbatim>\<open>None\<close>, booleans, integers, floats and strings unmodified; for a list or a tuple
  the array, and for a dict the object, of its members as \<^verbatim>\<open>json.dump\<close> writes them,
  which is the written form of a column value except that a member with an
  \<^verbatim>\<open>isoformat\<close> method is written as its \<^verbatim>\<open>str\<close> text; and for every other object the
  string \<^verbatim>\<open>str(value)\<close>. After a successful \<^verbatim>\<open>export_table_to_json\<close> of rows that
  have a value for every column, the file holds the list of these records, one per row.
\<close>

theorem json_values_written:
  assumes "distinct cols" and "length row = length cols"
  shows "(\<exists>d. convert_values cols 0 row [] = Inr d
              \<and> map (\<lambda>(k, v). (k, json_of v)) d = zip cols (map written_value row))
         \<and> (\<forall>v. has_isoformat v \<longrightarrow> written_value v = JStr (isoformat v))
         \<and> (\<forall>s. written_value (PObj Date s) = JStr s)
         \<and> (\<forall>s. written_value (PObj Time s) = JStr s)
         \<and> (\<forall>s. written_value (PObj Datetime s) = JStr (blank_to_T s))
         \<and> written_value PNone = JNull
         \<and> (\<forall>b. written_value (PBool b) = JBool b)
         \<and> (\<forall>i. written_value (PInt i) = JInt i)
         \<and> (\<forall>r. written_value (PFloat r) = JFloat r)
         \<and> (\<forall>s. written_value (PStr s) = JStr s)
         \<and> (\<forall>s vs. written_value (PList s vs) = JList (map json_of vs))
         \<and> (\<forall>s vs. written_value (PTuple s vs) = JList (map json_of vs))
         \<and> (\<forall>s kvs. written_value (PDict s kvs) = JObj (map (\<lambda>(k, v). (k, json_of v)) kvs))
         \<and> (\<forall>v. json_of v = (if has_isoformat v then JStr (py_str v) else written_value v))
         \<and> (\<forall>c s. \<not> has_isoformat (PObj c s) \<longrightarrow> written_value (PObj c s) = JStr s)
         \<and> (\<forall>e t limit w w' rows.
               select_limit e t limit = Inr (cols, rows)
               \<and> (\<forall>r \<in> set rows. length r = length cols)
               \<and> export_table_to_json e t limit w = (Inr True, w')
               \<longrightarrow> files w' (json_file w t)
                     = Some (JsonDoc (JList (map (\<lambda>r. JObj (zip cols (map written_value r))) rows))))"
proof -
  have "convert_values cols 0 row [] = Inr ([] @ zip (drop 0 cols) (map stored_value row))"
    using assms by (intro convert_values_distinct) simp_all
  moreover have "map (\<lambda>(k, v). (k, json_of v)) (zip cols (map stored_value row))
                 = zip cols (map written_value row)"
    by (auto simp: zip_map2 written_value_def)
  ultimately have written: "\<exists>d. convert_values cols 0 row [] = Inr d
      \<and> map (\<lambda>(k, v). (k, json_of v)) d = zip cols (map written_value row)"
    by simp
  have iso: "\<forall>v. has_isoformat v \<longrightarrow> written_value v = JStr (isoformat v)"
    by (simp add: written_value_def stored_value_def)
  have dates: "\<forall>s. written_value (PObj Date s) = JStr s"
    "\<forall>s. written_value (PObj Time s) = JStr s"
    "\<forall>s. written_value (PObj Datetime s) = JStr (blank_to_T s)"
    by (simp_all add: written_value_def stored_value_def)
  have plain: "written_value PNone = JNull" "\<forall>b. written_value (PBool b) = JBool b"
    "\<forall>i. written_value (PInt i) = JInt i" "\<forall>r. written_value (PFloat r) = JFloat r"
    "\<forall>s. written_value (PStr s) = JStr s"
    by (simp_all add: written_value_def stored_value_def)
  have containers: "\<forall>s vs. written_value (PList s vs) = JList (map json_of vs)"
    "\<forall>s vs. written_value (PTuple s vs) = JList (map json_of vs)"
    "\<forall>s kvs. written_value (PDict s kvs) = JObj (map (\<lambda>(k, v). (k, json_of v)) kvs)"
    by (simp_all add: written_value_def stored_value_def)
  have member: "\<forall>v. json_of v = (if has_isoformat v then JStr (py_str v) else written_value v)"
  proof
    fix v
    show "json_of v = (if has_isoformat v then JStr (py_str v) else written_value v)"
      by (cases v rule: has_isoformat.cases) (simp_all add: written_value_def stored_value_def)
  qed
  have other: "\<forall>c s. \<not> has_isoformat (PObj c s) \<longrightarrow> written_value (PObj c s) = JStr s"
    by (simp add: written_value_def stored_value_def)
  have document: "files w' (json_file w t)
                = Some (JsonDoc (JList (map (\<lambda>r. JObj (zip cols (map written_value r))) rows)))"
    if sel: "select_limit e t limit = Inr (cols, rows)"
      and len: "\<forall>r \<in> set rows. length r = length cols"
      and ok: "export_table_to_json e t limit w = (Inr True, w')"
    for e t limit w w' rows
  proof -
    from ok obtain n w1 where t: "json_try e t limit w = (Inr n, w1)"
      and w': "w' = print (JSON_Exported t n) w1"
      by (auto simp: export_table_to_json_def split: prod.splits sum.splits exn.splits)
    from json_try_Inr [OF t] sel obtain data where conv: "convert_rows cols rows [] = Inr data"
      and w1: "w1 = w\<lparr>files := (files w)(json_file w t \<mapsto> JsonDoc (json_dump data))\<rparr>"
      by auto
    from convert_rows_acc [OF conv]
    have l2: "list_all2 (\<lambda>r d. convert_values cols 0 r [] = Inr d) rows data"
      by simp
    have each: "convert_values cols 0 r [] = Inr (zip cols (map stored_value r))"
      if "r \<in> set rows" for r
      using convert_values_distinct [of cols 0 r "[]"] assms(1) len that by simp
    from l2 have "list_all2 (\<lambda>r d. d = zip cols (map stored_value r)) rows data"
      by (rule list.rel_mono_strong) (simp add: each)
    then have data: "data = map (\<lambda>r. zip cols (map stored_value r)) rows"
      by (simp add: list_all2_conv_all_nth list_eq_iff_nth_eq)
    have "json_dump data = JList (map (\<lambda>r. JObj (zip cols (map written_value r))) rows)"
      by (simp add: json_dump_def data zip_map2 written_value_def comp_def case_prod_beta)
    then show ?thesis by (simp add: w' w1 print_def)
  qed
  have exported: "\<forall>e t limit w w' rows.
               select_limit e t limit = Inr (cols, rows)
               \<and> (\<forall>r \<in> set rows. length r = length cols)
               \<and> export_table_to_json e t limit w = (Inr True, w')
               \<longrightarrow> files w' (json_file w t)
                     = Some (JsonDoc (JList (map (\<lambda>r. JObj (zip cols (map written_value r))) rows)))"
  proof (intro allI impI, elim conjE)
    fix e t limit w w' rows
    assume "select_limit e t limit = Inr (cols, rows)"
      and "\<forall>r \<in> set rows. length r = length cols"
      and "export_table_to_json e t limit w = (Inr True, w')"
    then show "files w' (json_file w t)
                 = Some (JsonDoc (JList (map (\<lambda>r. JObj (zip cols (map written_value r))) rows)))"
      by (rule document)
  qed
  from written iso dates plain containers member other exported show ?thesis
    by (intro conjI)
qed

theorem json_values_written_witness:
  "distinct [''session_id'', ''player_name'', ''start_time'', ''price'', ''scores'', ''seen'', ''meta'']
   \<and> length [PInt 1, PStr ''ann'', PObj Datetime ''2024-01-05 10:00:00'', PObj Decimal ''1.50'',
              PList ''[1, 2]'' [PInt 1, PInt 2],
              PList ''[datetime.datetime(2024, 1, 5, 10, 0)]'' [PObj Datetime ''2024-01-05 10:00:00''],
              PDict ''{'level': 3, 'tags': [None, True]}''
                [(''level'', PInt 3), (''tags'', PList ''[None, True]'' [PNone, PBool True])]]
       = length [''session_id'', ''player_name'', ''start_time'', ''price'', ''scores'', ''seen'', ''meta'']
   \<and> has_isoformat (PObj Datetime ''2024-01-05 10:00:00'')
   \<and> \<not> has_isoformat (PObj Decimal ''1.50'')
   \<and> fst (export_table_to_json demo_env ''profiles'' 1000 demo_world) = Inr True
   \<and> files (snd (export_table_to_json demo_env ''profiles'' 1000 demo_world))
        (json_file demo_world ''profiles'')
       = Some (JsonDoc (JList [JObj
              [(''session_id'', JInt 1), (''player_name'', JStr ''ann''),
               (''start_time'', JStr ''2024-01-05T10:00:00''), (''price'', JStr ''1.50''),
               (''scores'', JList [JInt 1, JInt 2]),
               (''seen'', JList [JStr ''2024-01-05 10:00:00'']),
               (''meta'', JObj [(''level'', JInt 3), (''tags'', JList [JNull, JBool True])])]]))
   \<and> (\<exists>d. convert_values
              [''session_id'', ''player_name'', ''start_time'', ''price'', ''scores'', ''seen'', ''meta''] 0
              [PInt 1, PStr ''ann'', PObj Datetime ''2024-01-05 10:00:00'', PObj Decimal ''1.50'',
               PList ''[1, 2]'' [PInt 1, PInt 2],
               PList ''[datetime.datetime(2024, 1, 5, 10, 0)]'' [PObj Datetime ''2024-01-05 10:00:00''],
               PDict ''{'level': 3, 'tags': [None, True]}''
                 [(''level'', PInt 3), (''tags'', PList ''[None, True]'' [PNone, PBool True])]] [] = Inr d
          \<and> map (\<lambda>(k, v). (k, json_of v)) d =
              [(''session_id'', JInt 1), (''player_name'', JStr ''ann''),
               (''start_time'', JStr ''2024-01-05T10:00:00''), (''price'', JStr ''1.50''),
               (''scores'', JList [JInt 1, JInt 2]),
               (''seen'', JList [JStr ''2024-01-05 10:00:00'']),
               (''meta'', JObj [(''level'', JInt 3), (''tags'', JList [JNull, JBool True])])])"
proof -
  let ?cols = "[''session_id'', ''player_name'', ''start_time'', ''price'', ''scores'', ''seen'', ''meta'']"
  let ?row = "[PInt 1, PStr ''ann'', PObj Datetime ''2024-01-05 10:00:00'', PObj Decimal ''1.50'',
               PList ''[1, 2]'' [PInt 1, PInt 2],
               PList ''[datetime.datetime(2024, 1, 5, 10, 0)]'' [PObj Datetime ''2024-01-05 10:00:00''],
               PDict ''{'level': 3, 'tags': [None, True]}''
                 [(''level'', PInt 3), (''tags'', PList ''[None, True]'' [PNone, PBool True])]]"
  have h1: "distinct ?cols" by simp
  have h2: "length ?row = length ?cols" by simp
  have h3: "has_isoformat (PObj Datetime ''2024-01-05 10:00:00'')" by simp
  have h4: "\<not> has_isoformat (PObj Decimal ''1.50'')" by simp
  let ?x = "export_table_to_json demo_env ''profiles'' 1000 demo_world"
  have e1: "select_limit demo_env ''profiles'' 1000 = Inr (?cols, [?row])"
    by (simp add: select_limit_def demo_env_def demo_select_def)
  have e2: "\<forall>r \<in> set [?row]. length r = length ?cols" by simp
  have e3: "fst ?x = Inr True"
    by (simp add: export_table_to_json_def json_try_def select_limit_def demo_env_def
        demo_select_def demo_world_def)
  have e4: "?x = (Inr True, snd ?x)"
    by (simp add: prod_eq_iff e3)
  note r = json_values_written [OF h1 h2]
  from r have exported: "\<forall>e t limit w w' rows.
               select_limit e t limit = Inr (?cols, rows)
               \<and> (\<forall>r \<in> set rows. length r = length ?cols)
               \<and> export_table_to_json e t limit w = (Inr True, w')
               \<longrightarrow> files w' (json_file w t)
                     = Some (JsonDoc (JList (map (\<lambda>r. JObj (zip ?cols (map written_value r))) rows)))"
    by (elim conjE)
  have e5: "files (snd ?x) (json_file demo_world ''profiles'')
       = Some (JsonDoc (JList (map (\<lambda>r. JObj (zip ?cols (map written_value r))) [?row])))"
    by (rule exported [rule_format, OF conjI [OF e1 conjI [OF e2 e4]]])
  from r have "\<exists>d. convert_values ?cols 0 ?row [] = Inr d
      \<and> map (\<lambda>(k, v). (k, json_of v)) d = zip ?cols (map written_value ?row)"
    by (rule conjunct1)
  then obtain d where
    d: "convert_values ?cols 0 ?row [] = Inr d"
    and m: "map (\<lambda>(k, v). (k, json_of v)) d = zip ?cols (map written_value ?row)"
    by blast
  have z: "zip ?cols (map written_value ?row) =
              [(''session_id'', JInt 1), (''player_name'', JStr ''ann''),
               (''start_time'', JStr ''2024-01-05T10:00:00''), (''price'', JStr ''1.50''),
               (''scores'', JList [JInt 1, JInt 2]),
               (''seen'', JList [JStr ''2024-01-05 10:00:00'']),
               (''meta'', JObj [(''level'', JInt 3), (''tags'', JList [JNull, JBool True])])]"
    by (simp add: written_value_def stored_value_def)
  from e5 z have e6: "files (snd ?x) (json_file demo_world ''profiles'')
       = Some (JsonDoc (JList [JObj
              [(''session_id'', JInt 1), (''player_name'', JStr ''ann''),
               (''start_time'', JStr ''2024-01-05T10:00:00''), (''price'', JStr ''1.50''),
               (''scores'', JList [JInt 1, JInt 2]),
               (''seen'', JList [JStr ''2024-01-05 10:00:00'']),
               (''meta'', JObj [(''level'', JInt 3), (''tags'', JList [JNull, JBool True])])]]))"
    by simp
  from d m z have "\<exists>d. convert_values ?cols 0 ?row [] = Inr d
          \<and> map (\<lambda>(k, v). (k, json_of v)) d =
              [(''session_id'', JInt 1), (''player_name'', JStr ''ann''),
               (''start_time'', JStr ''2024-01-05T10:00:00''), (''price'', JStr ''1.50''),
               (''scores'', JList [JInt 1, JInt 2]),
               (''seen'', JList [JStr ''2024-01-05 10:00:00'']),
               (''meta'', JObj [(''level'', JInt 3), (''tags'', JList [JNull, JBool True])])]"
    by simp
  with h1 h2 h3 h4 e3 e6 show ?thesis by (intro conjI)
qed

text \<open>
  Claim C5 as stated fails on the relation \<open>purchases\<close>: its numeric value, which has no
  \<^verbatim>\<open>isoformat\<close>, does not pass through as it is but is written as a string, exactly as
  the text value beside it; and its interval, a date/time type of SQL, is written as the
  \<^verbatim>\<open>str\<close> text of the \<^verbatim>\<open>timedelta\<close>, which is not an ISO 8601 text.
\<close>

theorem json_pass_through_counterexample:
  "\<not> has_isoformat (PObj Decimal ''1.50'')
   \<and> PObj Decimal ''1.50'' \<noteq> PStr ''1.50''
   \<and> fst (export_table_to_json demo_env ''purchases'' 1000 demo_world) = Inr True
   \<and> files (snd (export_table_to_json demo_env ''purchases'' 1000 demo_world))
        (json_file demo_world ''purchases'')
      = Some (JsonDoc (JList [JObj [(''price'', JStr ''1.50''), (''label'', JStr ''1.50''),
                                    (''duration'', JStr ''1 day, 0:00:00''),
                                    (''note'', JStr (''two'' @ [LF] @ ''lines''))]]))"
  by (simp add: export_table_to_json_def json_try_def select_limit_def demo_env_def
      demo_select_def demo_world_def json_file_def json_dump_def print_def stored_value_def)

section \<open>Properties of the CSV export\<close>


lemma CR_LF_chars: "CR \<noteq> CHR '',''" "LF \<noteq> CHR '',''" "CR \<noteq> CHR 0x22" "LF \<noteq> CHR 0x22" "CR \<noteq> LF"
  by (simp_all add: CR_def LF_def)

lemma writerow_append: "writerow r @ rest = csv_record r @ CR # LF # rest"
  by (simp add: writerow_def)


lemma splitlines_line:
  "CR \<notin> set s \<Longrightarrow> LF \<notin> set s \<Longrightarrow> splitlines cur (s @ CR # LF # rest) = (cur @ s) # splitlines [] rest"
proof (induction s arbitrary: cur)
  case Nil
  then show ?case by (simp add: CR_LF_chars)
next
  case (Cons c s)
  then have c: "c \<noteq> CR" "c \<noteq> LF" by auto
  obtain d ds where ds: "s @ CR # LF # rest = d # ds" by (cases s) auto
  have "splitlines cur ((c # s) @ CR # LF # rest) = splitlines (cur @ [c]) (s @ CR # LF # rest)"
    using c by (simp add: ds)
  also have "\<dots> = ((cur @ [c]) @ s) # splitlines [] rest"
    using Cons by simp
  finally show ?case by simp
qed

lemma set_quoted: "set (quoted s) = insert (CHR 0x22) (set s)"
  by (induction s) (auto simp: quoted_def)

lemma set_csv_field: "set (csv_field s) \<subseteq> insert (CHR 0x22) (set s)"
  by (simp add: csv_field_def set_quoted subset_insertI)

lemma set_join: "set (join sep ss) \<subseteq> set sep \<union> \<Union> (set ` set ss)"
  by (induction sep ss rule: join.induct) auto

lemma set_csv_record:
  "set (csv_record cells) \<subseteq> {CHR 0x22, CHR '',''} \<union> \<Union> (set ` set cells)"
proof (cases "cells = [[]]")
  case True
  then show ?thesis by (simp add: csv_record_def)
next
  case False
  have "set (join '','' (map csv_field cells)) \<subseteq> set '','' \<union> \<Union> (set ` set (map csv_field cells))"
    by (rule set_join)
  also have "\<dots> \<subseteq> {CHR 0x22, CHR '',''} \<union> \<Union> (set ` set cells)"
    using set_csv_field by fastforce
  finally show ?thesis using False by (simp add: csv_record_def)
qed

lemma csv_record_no_break:
  assumes "\<forall>f \<in> set cells. CR \<notin> set f \<and> LF \<notin> set f"
  shows "CR \<notin> set (csv_record cells) \<and> LF \<notin> set (csv_record cells)"
  using set_csv_record [of cells] assms CR_LF_chars by auto

lemma lines_of_records:
  assumes "\<forall>r \<in> set recs. \<forall>f \<in> set r. CR \<notin> set f \<and> LF \<notin> set f"
  shows "splitlines [] (concat (map writerow recs)) = map csv_record recs"
  using assms
proof (induction recs)
  case Nil
  then show ?case by simp
next
  case (Cons r recs)
  then have "CR \<notin> set (csv_record r)" "LF \<notin> set (csv_record r)"
    using csv_record_no_break [of r] by auto
  then have "splitlines [] (csv_record r @ CR # LF # concat (map writerow recs))
             = ([] @ csv_record r) # splitlines [] (concat (map writerow recs))"
    by (rule splitlines_line)
  with Cons show ?case by (simp add: writerow_append)
qed


lemma csv_try_Inr:
  "csv_try e t w = (Inr u, w') \<Longrightarrow>
     \<exists>cols rows. select_answer e t = Inr (cols, rows)
        \<and> w' = w\<lparr>files := (files w)(csv_file w t \<mapsto> Text (writerow cols @ writerows rows))\<rparr>"
  by (auto simp: csv_try_def split: option.splits sum.splits prod.splits)

text \<open>A text with a line break that is followed by an ordinary character has two lines at least.\<close>

lemma splitlines_nonempty: "xs \<noteq> [] \<Longrightarrow> splitlines cur xs \<noteq> []"
  by (induction cur xs rule: splitlines.induct) auto

lemma splitlines_two:
  assumes "xs = a @ c # b" and "c = CR \<or> c = LF" and "q \<in> set b" and "q \<noteq> CR" and "q \<noteq> LF"
  shows "2 \<le> length (splitlines cur xs)"
  using assms
proof (induction cur xs arbitrary: a rule: splitlines.induct)
  case (1 cur)
  then show ?case by simp
next
  case (2 cur x)
  then have "b = []" by (cases a) auto
  with 2 show ?case by simp
next
  case (3 cur x d ds)
  note xs = "3.prems"(1)
  show ?case
  proof (cases "x = LF")
    case True
    have "splitlines [] (d # ds) \<noteq> []" by (rule splitlines_nonempty) simp
    then have "1 \<le> length (splitlines [] (d # ds))" by (cases "splitlines [] (d # ds)") auto
    with True show ?thesis by simp
  next
    case nl: False
    show ?thesis
    proof (cases "x = CR")
      case True
      show ?thesis
      proof (cases "d = LF")
        case dl: True
        have "ds \<noteq> []"
        proof
          assume "ds = []"
          with xs have "a @ c # b = [x, d]" by simp
          then have "set b \<subseteq> {d}" by (cases a; cases "tl a") auto
          with "3.prems"(3,5) dl show False by auto
        qed
        then have "splitlines [] ds \<noteq> []" by (rule splitlines_nonempty)
        then have "1 \<le> length (splitlines [] ds)" by (cases "splitlines [] ds") auto
        with True dl CR_LF_chars(5) show ?thesis by simp
      next
        case False
        have "splitlines [] (d # ds) \<noteq> []" by (rule splitlines_nonempty) simp
        then have "1 \<le> length (splitlines [] (d # ds))" by (cases "splitlines [] (d # ds)") auto
        with True False CR_LF_chars(5) show ?thesis by simp
      qed
    next
      case False
      with nl xs "3.prems"(2) obtain a' where a: "a = x # a'" by (cases a) auto
      with xs have rest: "d # ds = a' @ c # b" by simp
      from "3.IH"(4) [OF nl False rest "3.prems"(2,3,4,5)] nl False show ?thesis by simp
    qed
  qed
qed

lemma join_member: "s \<in> set ss \<Longrightarrow> \<exists>pre post. join sep ss = pre @ s @ post"
proof (induction sep ss rule: join.induct)
  case (1 sep)
  then show ?case by simp
next
  case (2 sep t)
  then have "join sep [t] = [] @ s @ []" by simp
  then show ?case by blast
next
  case (3 sep t u ss)
  show ?case
  proof (cases "s = t")
    case True
    then have "join sep (t # u # ss) = [] @ s @ (sep @ join sep (u # ss))" by simp
    then show ?thesis by blast
  next
    case False
    with 3 obtain pre post where "join sep (u # ss) = pre @ s @ post" by auto
    then have "join sep (t # u # ss) = (t @ sep @ pre) @ s @ post" by simp
    then show ?thesis by blast
  qed
qed

lemma quoted_break:
  assumes "c \<in> set s" and "c = CR \<or> c = LF"
  shows "\<exists>a b. quoted s = a @ c # b @ [CHR 0x22]"
proof -
  from assms(1) obtain s1 s2 where s: "s = s1 @ c # s2" by (auto simp: in_set_conv_decomp)
  from assms(2) CR_LF_chars have "c \<noteq> CHR 0x22" by auto
  then have "quoted s = (CHR 0x22 # concat (map (\<lambda>c. if c = CHR 0x22 then [c, c] else [c]) s1))
                @ c # concat (map (\<lambda>c. if c = CHR 0x22 then [c, c] else [c]) s2) @ [CHR 0x22]"
    by (simp add: quoted_def s)
  then show ?thesis by blast
qed

lemma break_needs_quotes: "c \<in> set s \<Longrightarrow> c = CR \<or> c = LF \<Longrightarrow> csv_field s = quoted s"
  by (auto simp: csv_field_def needs_quotes_def)

lemma record_with_break:
  assumes "s \<in> set cells" and "c \<in> set s" and "c = CR \<or> c = LF"
  shows "2 \<le> length (lines_of (csv_record cells @ [CR, LF]))"
proof -
  from assms(1,2) have ne: "cells \<noteq> [[]]" by auto
  from assms(1) have "csv_field s \<in> set (map csv_field cells)" by simp
  then obtain pre post where j: "join '','' (map csv_field cells) = pre @ csv_field s @ post"
    using join_member by blast
  from quoted_break [OF assms(2,3)] obtain a b where q: "quoted s = a @ c # b @ [CHR 0x22]"
    by blast
  have e: "csv_record cells @ [CR, LF] = (pre @ a) @ c # (b @ [CHR 0x22] @ post @ [CR, LF])"
    using ne j q break_needs_quotes [OF assms(2,3)] by (simp add: csv_record_def)
  have m: "CHR 0x22 \<in> set (b @ [CHR 0x22] @ post @ [CR, LF])" by simp
  show ?thesis
    unfolding lines_of_def
    by (rule splitlines_two [OF e assms(3) m CR_LF_chars(3) [symmetric] CR_LF_chars(4) [symmetric]])
qed

text \<open>
  Claim C4, as amended. After a successful \<^verbatim>\<open>export_table_to_csv\<close> the file is the header
  record followed by one record per row of the answer, in order, each ended by
  \<^verbatim>\<open>\r\n\<close>. When no column name and no field text holds a line break, its lines are
  exactly these records: the first line is the header and the data lines are as many as
  the rows; for an answer without rows the header is the only line. A field of a row that
  holds a line break is written in quotes, and the record of its row takes two lines at
  least.
\<close>

theorem csv_lines:
  assumes "select_answer e t = Inr (cols, rows)"
    and "export_table_to_csv e t w = (Inr True, w')"
  shows "files w' (csv_file w t)
           = Some (Text (concat (map (\<lambda>cells. csv_record cells @ [CR, LF])
                                     (cols # map (map csv_text) rows))))
         \<and> ((\<forall>c \<in> set cols. CR \<notin> set c \<and> LF \<notin> set c)
             \<and> (\<forall>row \<in> set rows. \<forall>v \<in> set row. CR \<notin> set (csv_text v) \<and> LF \<notin> set (csv_text v))
            \<longrightarrow> file_lines w' (csv_file w t)
                  = Some (csv_record cols # map (\<lambda>row. csv_record (map csv_text row)) rows)
                \<and> map_option length (file_lines w' (csv_file w t)) = Some (1 + length rows)
                \<and> (rows = [] \<longrightarrow> file_lines w' (csv_file w t) = Some [csv_record cols]))
         \<and> (\<forall>row \<in> set rows. \<forall>v \<in> set row.
               CR \<in> set (csv_text v) \<or> LF \<in> set (csv_text v)
               \<longrightarrow> csv_field (csv_text v) = quoted (csv_text v)
                   \<and> 2 \<le> length (lines_of (csv_record (map csv_text row) @ [CR, LF])))"
proof -
  from assms(2) obtain u w1 where t: "csv_try e t w = (Inr u, w1)"
    and w': "w' = print (CSV_Exported t) w1"
    by (auto simp: export_table_to_csv_def split: prod.splits sum.splits exn.splits)
  from csv_try_Inr [OF t] assms(1)
  have w1: "w1 = w\<lparr>files := (files w)(csv_file w t \<mapsto> Text (writerow cols @ writerows rows))\<rparr>"
    by auto
  let ?recs = "cols # map (map csv_text) rows"
  have whole: "writerow cols @ writerows rows = concat (map writerow ?recs)"
    by (simp add: writerows_def comp_def)
  have rows_eq: "map writerow ?recs = map (\<lambda>cells. csv_record cells @ [CR, LF]) ?recs"
    by (simp add: writerow_def)
  have f: "files w' (csv_file w t) = Some (Text (concat (map writerow ?recs)))"
    by (simp add: w' w1 print_def whole del: concat.simps list.map)
  have first: "files w' (csv_file w t)
           = Some (Text (concat (map (\<lambda>cells. csv_record cells @ [CR, LF]) ?recs)))"
    using f unfolding rows_eq .
  have second: "file_lines w' (csv_file w t)
                  = Some (csv_record cols # map (\<lambda>row. csv_record (map csv_text row)) rows)
                \<and> map_option length (file_lines w' (csv_file w t)) = Some (1 + length rows)
                \<and> (rows = [] \<longrightarrow> file_lines w' (csv_file w t) = Some [csv_record cols])"
    if nb: "(\<forall>c \<in> set cols. CR \<notin> set c \<and> LF \<notin> set c)
             \<and> (\<forall>row \<in> set rows. \<forall>v \<in> set row. CR \<notin> set (csv_text v) \<and> LF \<notin> set (csv_text v))"
  proof -
    have "\<forall>r \<in> set ?recs. \<forall>f \<in> set r. CR \<notin> set f \<and> LF \<notin> set f"
      using nb by auto
    then have "splitlines [] (concat (map writerow ?recs)) = map csv_record ?recs"
      by (rule lines_of_records)
    moreover have "map csv_record ?recs
                   = csv_record cols # map (\<lambda>row. csv_record (map csv_text row)) rows"
      by simp
    ultimately have "lines_of (concat (map writerow ?recs))
                     = csv_record cols # map (\<lambda>row. csv_record (map csv_text row)) rows"
      unfolding lines_of_def by (rule trans)
    then have "file_lines w' (csv_file w t)
               = Some (csv_record cols # map (\<lambda>row. csv_record (map csv_text row)) rows)"
      by (simp add: file_lines_def f del: concat.simps list.map)
    then show ?thesis by simp
  qed
  have third: "csv_field (csv_text v) = quoted (csv_text v)
                \<and> 2 \<le> length (lines_of (csv_record (map csv_text row) @ [CR, LF]))"
    if "row \<in> set rows" and "v \<in> set row"
      and "CR \<in> set (csv_text v) \<or> LF \<in> set (csv_text v)" for row v
  proof -
    from that(3) obtain c where c: "c \<in> set (csv_text v)" "c = CR \<or> c = LF" by auto
    from that(2) have "csv_text v \<in> set (map csv_text row)" by simp
    from record_with_break [OF this c] break_needs_quotes [OF c] show ?thesis by simp
  qed
  from first second third show ?thesis by blast
qed

lemma demo_csv_success:
  "fst (export_table_to_csv demo_env ''sessions'' demo_world) = Inr True"
  "fst (export_table_to_csv demo_env ''game_ticks'' demo_world) = Inr True"
  "fst (export_table_to_csv demo_env ''purchases'' demo_world) = Inr True"
  by (simp_all add: export_table_to_csv_def csv_try_def demo_env_def demo_select_def
      demo_world_def)

theorem csv_lines_witness:
  "select_answer demo_env ''sessions'' =
     Inr ([''session_id'', ''player_name'', ''start_time''],
          [[PInt 1, PStr ''ann'', PObj Datetime ''2024-01-05 10:00:00''],
           [PInt 2, PStr ''bob'', PNone]])
   \<and> fst (export_table_to_csv demo_env ''sessions'' demo_world) = Inr True
   \<and> list_all (\<lambda>s. CR \<notin> set s \<and> LF \<notin> set s)
        ([''session_id'', ''player_name'', ''start_time'']
         @ map csv_text [PInt 1, PStr ''ann'', PObj Datetime ''2024-01-05 10:00:00'']
         @ map csv_text [PInt 2, PStr ''bob'', PNone])
   \<and> files (snd (export_table_to_csv demo_env ''sessions'' demo_world))
        (csv_file demo_world ''sessions'')
       = Some (Text (''session_id,player_name,start_time'' @ [CR, LF]
                     @ ''1,ann,2024-01-05 10:00:00'' @ [CR, LF]
                     @ ''2,bob,'' @ [CR, LF]))
   \<and> file_lines (snd (export_table_to_csv demo_env ''sessions'' demo_world))
        (csv_file demo_world ''sessions'')
       = Some [''session_id,player_name,start_time'', ''1,ann,2024-01-05 10:00:00'', ''2,bob,'']
   \<and> select_answer demo_env ''game_ticks'' = Inr ([''tick_number''], [])
   \<and> file_lines (snd (export_table_to_csv demo_env ''game_ticks'' demo_world))
        (csv_file demo_world ''game_ticks'') = Some [''tick_number'']
   \<and> LF \<in> set (csv_text (PStr (''two'' @ [LF] @ ''lines'')))
   \<and> csv_field (csv_text (PStr (''two'' @ [LF] @ ''lines'')))
       = CHR 0x22 # ''two'' @ [LF] @ ''lines'' @ [CHR 0x22]
   \<and> 2 \<le> length (lines_of (csv_record (map csv_text
            [PObj Decimal ''1.50'', PStr ''1.50'', PObj Timedelta ''1 day, 0:00:00'',
             PStr (''two'' @ [LF] @ ''lines'')]) @ [CR, LF]))"
proof -
  let ?cols = "[''session_id'', ''player_name'', ''start_time'']"
  let ?r1 = "[PInt 1, PStr ''ann'', PObj Datetime ''2024-01-05 10:00:00'']"
  let ?r2 = "[PInt 2, PStr ''bob'', PNone]"
  let ?s = "export_table_to_csv demo_env ''sessions'' demo_world"
  let ?g = "export_table_to_csv demo_env ''game_ticks'' demo_world"
  let ?p = "export_table_to_csv demo_env ''purchases'' demo_world"
  let ?row = "[PObj Decimal ''1.50'', PStr ''1.50'', PObj Timedelta ''1 day, 0:00:00'',
               PStr (''two'' @ [LF] @ ''lines'')]"
  have s1: "select_answer demo_env ''sessions'' = Inr (?cols, [?r1, ?r2])"
    by (simp add: demo_env_def demo_select_def)
  have s2: "?s = (Inr True, snd ?s)"
    by (simp add: prod_eq_iff demo_csv_success)
  have s3: "list_all (\<lambda>s. CR \<notin> set s \<and> LF \<notin> set s)
              (?cols @ map csv_text ?r1 @ map csv_text ?r2)"
    by (simp add: CR_def LF_def str_int_def str_nat.simps digit_def)
  have s4: "(\<forall>c \<in> set ?cols. CR \<notin> set c \<and> LF \<notin> set c)
            \<and> (\<forall>row \<in> set [?r1, ?r2]. \<forall>v \<in> set row.
                  CR \<notin> set (csv_text v) \<and> LF \<notin> set (csv_text v))"
    using s3 by simp
  have records: "csv_record ?cols = ''session_id,player_name,start_time''"
    "csv_record [str_int 1, ''ann'', ''2024-01-05 10:00:00''] = ''1,ann,2024-01-05 10:00:00''"
    "csv_record [str_int 2, ''bob'', []] = ''2,bob,''"
    by (simp_all add: csv_record_def csv_field_def needs_quotes_def CR_def LF_def str_int_def
        str_nat.simps digit_def)
  note s = csv_lines [OF s1 s2]
  from s have "files (snd ?s) (csv_file demo_world ''sessions'')
       = Some (Text (concat (map (\<lambda>cells. csv_record cells @ [CR, LF])
                                 (?cols # map (map csv_text) [?r1, ?r2]))))"
    by (rule conjunct1)
  then have s5: "files (snd ?s) (csv_file demo_world ''sessions'')
       = Some (Text (''session_id,player_name,start_time'' @ [CR, LF]
                     @ ''1,ann,2024-01-05 10:00:00'' @ [CR, LF]
                     @ ''2,bob,'' @ [CR, LF]))"
    by (simp add: records)
  from s s4 have "file_lines (snd ?s) (csv_file demo_world ''sessions'')
       = Some (csv_record ?cols # map (\<lambda>row. csv_record (map csv_text row)) [?r1, ?r2])"
    by blast
  then have s6: "file_lines (snd ?s) (csv_file demo_world ''sessions'')
       = Some [''session_id,player_name,start_time'', ''1,ann,2024-01-05 10:00:00'', ''2,bob,'']"
    by (simp add: records)
  have g1: "select_answer demo_env ''game_ticks'' = Inr ([''tick_number''], [])"
    by (simp add: demo_env_def demo_select_def)
  have g2: "?g = (Inr True, snd ?g)"
    by (simp add: prod_eq_iff demo_csv_success)
  have g3: "(\<forall>c \<in> set [''tick_number'']. CR \<notin> set c \<and> LF \<notin> set c)
            \<and> (\<forall>row \<in> set ([] :: pyval list list). \<forall>v \<in> set row.
                  CR \<notin> set (csv_text v) \<and> LF \<notin> set (csv_text v))"
    by (simp add: CR_def LF_def)
  have g4: "csv_record [''tick_number''] = ''tick_number''"
    by (simp add: csv_record_def csv_field_def needs_quotes_def CR_def LF_def)
  from csv_lines [OF g1 g2] g3
  have "file_lines (snd ?g) (csv_file demo_world ''game_ticks'') = Some [csv_record [''tick_number'']]"
    by blast
  then have g5: "file_lines (snd ?g) (csv_file demo_world ''game_ticks'') = Some [''tick_number'']"
    by (simp add: g4)
  have p1: "select_answer demo_env ''purchases''
              = Inr ([''price'', ''label'', ''duration'', ''note''], [?row])"
    by (simp add: demo_env_def demo_select_def)
  have p2: "?p = (Inr True, snd ?p)"
    by (simp add: prod_eq_iff demo_csv_success)
  have p3: "LF \<in> set (csv_text (PStr (''two'' @ [LF] @ ''lines'')))"
    by simp
  have p4: "?row \<in> set [?row]" "PStr (''two'' @ [LF] @ ''lines'') \<in> set ?row"
    by simp_all
  from csv_lines [OF p1 p2] p3 p4
  have p5: "csv_field (csv_text (PStr (''two'' @ [LF] @ ''lines'')))
              = quoted (csv_text (PStr (''two'' @ [LF] @ ''lines'')))
            \<and> 2 \<le> length (lines_of (csv_record (map csv_text ?row) @ [CR, LF]))"
    by blast
  have p6: "quoted (csv_text (PStr (''two'' @ [LF] @ ''lines'')))
              = CHR 0x22 # ''two'' @ [LF] @ ''lines'' @ [CHR 0x22]"
    by (simp add: quoted_def LF_def)
  from p5 p6 have p7: "csv_field (csv_text (PStr (''two'' @ [LF] @ ''lines'')))
       = CHR 0x22 # ''two'' @ [LF] @ ''lines'' @ [CHR 0x22]"
    by simp
  from p5 have p8: "2 \<le> length (lines_of (csv_record (map csv_text ?row) @ [CR, LF]))"
    by (rule conjunct2)
  from s1 demo_csv_success(1) s3 s5 s6 g1 g5 p3 p7 p8 show ?thesis
    by (intro conjI)
qed

text \<open>
  Claim C4 as stated fails where a field holds a line break: \<open>purchases\<close> has one row, and
  its file has three lines, the header and two lines for the one row.
\<close>

theorem csv_lines_counterexample:
  "select_answer demo_env ''purchases'' =
     Inr ([''price'', ''label'', ''duration'', ''note''],
          [[PObj Decimal ''1.50'', PStr ''1.50'', PObj Timedelta ''1 day, 0:00:00'',
            PStr (''two'' @ [LF] @ ''lines'')]])
   \<and> fst (export_table_to_csv demo_env ''purchases'' demo_world) = Inr True
   \<and> file_lines (snd (export_table_to_csv demo_env ''purchases'' demo_world))
        (csv_file demo_world ''purchases'')
      = Some [''price,label,duration,note'',
              ''1.50,1.50,'' @ [CHR 0x22] @ ''1 day, 0:00:00'' @ [CHR 0x22] @ '','' @ [CHR 0x22] @ ''two'',
              ''lines'' @ [CHR 0x22]]"
  by (simp add: export_table_to_csv_def csv_try_def demo_env_def demo_select_def demo_world_def
      csv_file_def print_def writerow_def writerows_def csv_record_def csv_field_def
      needs_quotes_def quoted_def file_lines_def lines_of_def CR_def LF_def)


section \<open>Properties of the summary\<close>

lemma summarise_total:
  "snd (summarise infos entries n) = n + (\<Sum>(t, info)\<leftarrow>infos. row_count info)"
  by (induction infos arbitrary: entries n) auto

text \<open>
  Claim C3. In the Summary Document of \<^verbatim>\<open>generate_summary_report\<close>, \<open>total_rows\<close> is the
  sum of \<open>row_count\<close> over the collected Table Descriptors and \<open>total_tables\<close> is their
  number, whatever the collection (the empty one included); and this document is what a
  successful call writes to \<^verbatim>\<open>database_summary.json\<close>.
\<close>

theorem summary_totals:
  "total_rows (build_summary e tables_info) = (\<Sum>(t, info)\<leftarrow>tables_info. row_count info)
   \<and> total_tables (build_summary e tables_info) = length tables_info
   \<and> (fst (generate_summary_report e tables_info w) = Inr () \<longrightarrow>
        files (snd (generate_summary_report e tables_info w))
          (output_dir w @ ''/summary/database_summary.json'')
        = Some (JsonDoc (summary_json (build_summary e tables_info))))"
proof -
  have "total_rows (build_summary e tables_info) = snd (summarise tables_info [] 0)"
    by (simp add: build_summary_def split: prod.splits)
  then have rows: "total_rows (build_summary e tables_info)
                   = (\<Sum>(t, info)\<leftarrow>tables_info. row_count info)"
    by (simp add: summarise_total)
  have n: "total_tables (build_summary e tables_info) = length tables_info"
    by (simp add: build_summary_def split: prod.splits)
  have f: "fst (generate_summary_report e tables_info w) = Inr () \<longrightarrow>
        files (snd (generate_summary_report e tables_info w))
          (output_dir w @ ''/summary/database_summary.json'')
        = Some (JsonDoc (summary_json (build_summary e tables_info)))"
    by (simp add: generate_summary_report_def Let_def print_def split: option.splits)
  from rows n f show ?thesis by (intro conjI)
qed

theorem summary_totals_witness:
  "total_rows (build_summary demo_env
      [(''sessions'', \<lparr>columns = [], row_count = 5\<rparr>), (''game_ticks'', \<lparr>columns = [], row_count = 0\<rparr>)]) = 5
   \<and> total_tables (build_summary demo_env
      [(''sessions'', \<lparr>columns = [], row_count = 5\<rparr>), (''game_ticks'', \<lparr>columns = [], row_count = 0\<rparr>)]) = 2
   \<and> fst (generate_summary_report demo_env
      [(''sessions'', \<lparr>columns = [], row_count = 5\<rparr>), (''game_ticks'', \<lparr>columns = [], row_count = 0\<rparr>)]
      demo_world) = Inr ()
   \<and> files (snd (generate_summary_report demo_env
      [(''sessions'', \<lparr>columns = [], row_count = 5\<rparr>), (''game_ticks'', \<lparr>columns = [], row_count = 0\<rparr>)]
      demo_world)) (output_dir demo_world @ ''/summary/database_summary.json'')
     = Some (JsonDoc (summary_json (build_summary demo_env
      [(''sessions'', \<lparr>columns = [], row_count = 5\<rparr>), (''game_ticks'', \<lparr>columns = [], row_count = 0\<rparr>)])))"
proof -
  let ?ti = "[(''sessions'', \<lparr>columns = [], row_count = 5\<rparr>), (''game_ticks'', \<lparr>columns = [], row_count = 0\<rparr>)]"
  have ok: "fst (generate_summary_report demo_env ?ti demo_world) = Inr ()"
    by (simp add: generate_summary_report_def Let_def demo_env_def)
  from summary_totals [of demo_env ?ti demo_world] ok show ?thesis by simp
qed

section \<open>Properties of the export loop\<close>












section \<open>Properties of the sample query runner\<close>

text \<open>What the results file holds for one query: its heading, then its rows or its error.\<close>

lemma run_queries_all:
  assumes "\<forall>(query_name, query_sql) \<in> set qs. sample_answer e query_sql \<noteq> Inl KeyboardInterrupt"
  shows "run_queries e qs f =
           (None, f @ concat (map (\<lambda>(query_name, query_sql).
              query_heading query_name query_sql
              @ (case sample_answer e query_sql of
                   Inr r \<Rightarrow> query_results r
                 | Inl x \<Rightarrow> query_error (message x))) qs))"
  using assms
proof (induction qs arbitrary: f)
  case Nil
  then show ?case by simp
next
  case (Cons q qs)
  obtain query_name query_sql where q: "q = (query_name, query_sql)" by (cases q)
  from Cons.prems q have ni: "sample_answer e query_sql \<noteq> Inl KeyboardInterrupt" by simp
  from Cons.prems have rest: "\<forall>(query_name, query_sql) \<in> set qs.
      sample_answer e query_sql \<noteq> Inl KeyboardInterrupt" by simp
  show ?case
  proof (cases "sample_answer e query_sql")
    case (Inl x)
    with ni obtain m where "x = Error m" by (cases x) auto
    with Inl q Cons.IH [OF rest] show ?thesis by simp
  next
    case (Inr r)
    with q Cons.IH [OF rest] show ?thesis by simp
  qed
qed

text \<open>
  Claim C6. With an open connection and a results file that can be opened, and no
  interrupt from the keyboard, \<^verbatim>\<open>export_sample_queries\<close> returns normally and the results
  file holds, after its title, one section for every query of the fixed set, in order:
  the name of the query, a rule and its SQL text, followed by the table of its rows if the
  query was answered and, if it failed, by the line \<^verbatim>\<open>Error executing query:\<close> with the
  message of its error in the place of the table. So a failed query is reported with its
  message and every later query is still executed and reported.
\<close>

theorem sample_queries_all_reported:
  assumes "conn w = OpenConnection"
    and "open_failure e (results_file w) = None"
    and "\<forall>(query_name, query_sql) \<in> set queries. sample_answer e query_sql \<noteq> Inl KeyboardInterrupt"
  shows "fst (export_sample_queries e w) = Inr ()
         \<and> files (snd (export_sample_queries e w)) (results_file w) =
             Some (Text (results_title @ concat (map (\<lambda>(query_name, query_sql).
                query_heading query_name query_sql
                @ (case sample_answer e query_sql of
                     Inr r \<Rightarrow> query_results r
                   | Inl x \<Rightarrow> query_error (message x))) queries)))
         \<and> files (snd (export_sample_queries e w)) (results_file w) =
             Some (Text (''RuneLiteAI Database Sample Query Results'' @ [LF]
                @ replicate 50 (CHR ''='') @ [LF, LF]
                @ concat (map (\<lambda>(query_name, query_sql).
                    ''Query: '' @ query_name @ [LF] @ replicate 30 (CHR ''-'') @ [LF]
                    @ ''SQL: '' @ query_sql @ [LF, LF]
                    @ (case sample_answer e query_sql of
                         Inr (column_names, results) \<Rightarrow>
                           ''Results ('' @ str_nat (length results) @ '' rows):'' @ [LF]
                           @ join '' | '' column_names @ [LF]
                           @ replicate 80 (CHR ''-'') @ [LF]
                           @ concat (map (\<lambda>row. join '' | '' (map py_str row) @ [LF]) results)
                           @ [LF] @ replicate 80 (CHR ''='') @ [LF, LF]
                       | Inl x \<Rightarrow> ''Error executing query: '' @ message x @ [LF, LF])) queries)))"
proof -
  from assms(1,2) run_queries_all [OF assms(3), of results_title]
  have ok: "fst (export_sample_queries e w) = Inr ()"
    and f: "files (snd (export_sample_queries e w)) (results_file w) =
             Some (Text (results_title @ concat (map (\<lambda>(query_name, query_sql).
                query_heading query_name query_sql
                @ (case sample_answer e query_sql of
                     Inr r \<Rightarrow> query_results r
                   | Inl x \<Rightarrow> query_error (message x))) queries)))"
    by (simp_all add: export_sample_queries_def print_def)
  have section_text: "query_heading query_name query_sql
          @ (case a of Inr r \<Rightarrow> query_results r | Inl x \<Rightarrow> query_error (message x))
        = ''Query: '' @ query_name @ [LF] @ replicate 30 (CHR ''-'') @ [LF]
          @ ''SQL: '' @ query_sql @ [LF, LF]
          @ (case a of
               Inr (column_names, results) \<Rightarrow>
                 ''Results ('' @ str_nat (length results) @ '' rows):'' @ [LF]
                 @ join '' | '' column_names @ [LF]
                 @ replicate 80 (CHR ''-'') @ [LF]
                 @ concat (map (\<lambda>row. join '' | '' (map py_str row) @ [LF]) results)
                 @ [LF] @ replicate 80 (CHR ''='') @ [LF, LF]
             | Inl x \<Rightarrow> ''Error executing query: '' @ message x @ [LF, LF])"
    for query_name query_sql and a :: "exn + result_set"
    by (simp add: query_heading_def query_results_def query_error_def
        split: sum.split prod.split)
  have "(\<lambda>(query_name, query_sql).
                query_heading query_name query_sql
                @ (case sample_answer e query_sql of
                     Inr r \<Rightarrow> query_results r
                   | Inl x \<Rightarrow> query_error (message x)))
        = (\<lambda>(query_name, query_sql).
                    ''Query: '' @ query_name @ [LF] @ replicate 30 (CHR ''-'') @ [LF]
                    @ ''SQL: '' @ query_sql @ [LF, LF]
                    @ (case sample_answer e query_sql of
                         Inr (column_names, results) \<Rightarrow>
                           ''Results ('' @ str_nat (length results) @ '' rows):'' @ [LF]
                           @ join '' | '' column_names @ [LF]
                           @ replicate 80 (CHR ''-'') @ [LF]
                           @ concat (map (\<lambda>row. join '' | '' (map py_str row) @ [LF]) results)
                           @ [LF] @ replicate 80 (CHR ''='') @ [LF, LF]
                       | Inl x \<Rightarrow> ''Error executing query: '' @ message x @ [LF, LF]))"
    by (simp only: section_text)
  with f have g: "files (snd (export_sample_queries e w)) (results_file w) =
             Some (Text (''RuneLiteAI Database Sample Query Results'' @ [LF]
                @ replicate 50 (CHR ''='') @ [LF, LF]
                @ concat (map (\<lambda>(query_name, query_sql).
                    ''Query: '' @ query_name @ [LF] @ replicate 30 (CHR ''-'') @ [LF]
                    @ ''SQL: '' @ query_sql @ [LF, LF]
                    @ (case sample_answer e query_sql of
                         Inr (column_names, results) \<Rightarrow>
                           ''Results ('' @ str_nat (length results) @ '' rows):'' @ [LF]
                           @ join '' | '' column_names @ [LF]
                           @ replicate 80 (CHR ''-'') @ [LF]
                           @ concat (map (\<lambda>row. join '' | '' (map py_str row) @ [LF]) results)
                           @ [LF] @ replicate 80 (CHR ''='') @ [LF, LF]
                       | Inl x \<Rightarrow> ''Error executing query: '' @ message x @ [LF, LF])) queries)))"
    by (simp add: results_title_def)
  from ok f g show ?thesis by (intro conjI)
qed

theorem sample_queries_all_reported_witness:
  "conn demo_world = OpenConnection
   \<and> open_failure query_env (results_file demo_world) = None
   \<and> (\<forall>query_sql. sample_answer query_env query_sql \<noteq> Inl KeyboardInterrupt)
   \<and> sample_answer query_env (snd (queries ! 2))
       = Inl (Error ''relation player_location does not exist'')
   \<and> sample_answer query_env (snd (queries ! 3)) = Inl (Error ''current transaction is aborted'')
   \<and> fst (export_sample_queries query_env demo_world) = Inr ()
   \<and> files (snd (export_sample_queries query_env demo_world)) (results_file demo_world) =
       Some (Text (''RuneLiteAI Database Sample Query Results'' @ [LF]
          @ replicate 50 (CHR ''='') @ [LF, LF]
          @ ''Query: sessions_overview'' @ [LF] @ replicate 30 (CHR ''-'') @ [LF]
          @ ''SQL: '' @ snd (queries ! 0) @ [LF, LF]
          @ ''Results (1 rows):'' @ [LF]
          @ ''session_id | player_name | start_time | end_time | duration_minutes'' @ [LF]
          @ replicate 80 (CHR ''-'') @ [LF]
          @ ''1 | ann | 2024-01-05 10:00:00 | None | None'' @ [LF]
          @ [LF] @ replicate 80 (CHR ''='') @ [LF, LF]
          @ ''Query: tick_performance'' @ [LF] @ replicate 30 (CHR ''-'') @ [LF]
          @ ''SQL: '' @ snd (queries ! 1) @ [LF, LF]
          @ ''Results (0 rows):'' @ [LF]
          @ ''session_id | avg_processing_ms | tick_count | min_processing_ms | max_processing_ms''
          @ [LF]
          @ replicate 80 (CHR ''-'') @ [LF]
          @ [LF] @ replicate 80 (CHR ''='') @ [LF, LF]
          @ ''Query: player_locations'' @ [LF] @ replicate 30 (CHR ''-'') @ [LF]
          @ ''SQL: '' @ snd (queries ! 2) @ [LF, LF]
          @ ''Error executing query: relation player_location does not exist'' @ [LF, LF]
          @ ''Query: recent_activity'' @ [LF] @ replicate 30 (CHR ''-'') @ [LF]
          @ ''SQL: '' @ snd (queries ! 3) @ [LF, LF]
          @ ''Error executing query: current transaction is aborted'' @ [LF, LF]))"
proof -
  define s0 where "s0 = snd (queries ! 0)"
  define s1 where "s1 = snd (queries ! 1)"
  define s2 where "s2 = snd (queries ! 2)"
  define s3 where "s3 = snd (queries ! 3)"
  have q: "queries = [(''sessions_overview'', s0), (''tick_performance'', s1),
                      (''player_locations'', s2), (''recent_activity'', s3)]"
    by (simp add: queries_def s0_def s1_def s2_def s3_def)
  have a0: "sample_answer query_env s0 =
      Inr ([''session_id'', ''player_name'', ''start_time'', ''end_time'', ''duration_minutes''],
           [[PInt 1, PStr ''ann'', PObj Datetime ''2024-01-05 10:00:00'', PNone, PNone]])"
    by (simp add: query_env_def s0_def)
  have a1: "sample_answer query_env s1 =
      Inr ([''session_id'', ''avg_processing_ms'', ''tick_count'', ''min_processing_ms'',
            ''max_processing_ms''], [])"
    by (simp add: query_env_def s1_def queries_def)
  have a2: "sample_answer query_env s2 = Inl (Error ''relation player_location does not exist'')"
    by (simp add: query_env_def s2_def queries_def)
  have a3: "sample_answer query_env s3 = Inl (Error ''current transaction is aborted'')"
    by (simp add: query_env_def s3_def queries_def)
  have h1: "conn demo_world = OpenConnection" by (simp add: demo_world_def)
  have h2: "open_failure query_env (results_file demo_world) = None"
    by (simp add: query_env_def demo_env_def)
  have h3: "\<forall>(query_name, query_sql) \<in> set queries.
              sample_answer query_env query_sql \<noteq> Inl KeyboardInterrupt"
    by (simp add: query_env_def)
  have h4: "\<forall>query_sql. sample_answer query_env query_sql \<noteq> Inl KeyboardInterrupt"
    by (simp add: query_env_def)
  note r = sample_queries_all_reported [OF h1 h2 h3]
  from r have ok: "fst (export_sample_queries query_env demo_world) = Inr ()"
    by (rule conjunct1)
  have "files (snd (export_sample_queries query_env demo_world)) (results_file demo_world) =
       Some (Text (''RuneLiteAI Database Sample Query Results'' @ [LF]
          @ replicate 50 (CHR ''='') @ [LF, LF]
          @ ''Query: sessions_overview'' @ [LF] @ replicate 30 (CHR ''-'') @ [LF]
          @ ''SQL: '' @ s0 @ [LF, LF]
          @ ''Results (1 rows):'' @ [LF]
          @ ''session_id | player_name | start_time | end_time | duration_minutes'' @ [LF]
          @ replicate 80 (CHR ''-'') @ [LF]
          @ ''1 | ann | 2024-01-05 10:00:00 | None | None'' @ [LF]
          @ [LF] @ replicate 80 (CHR ''='') @ [LF, LF]
          @ ''Query: tick_performance'' @ [LF] @ replicate 30 (CHR ''-'') @ [LF]
          @ ''SQL: '' @ s1 @ [LF, LF]
          @ ''Results (0 rows):'' @ [LF]
          @ ''session_id | avg_processing_ms | tick_count | min_processing_ms | max_processing_ms''
          @ [LF]
          @ replicate 80 (CHR ''-'') @ [LF]
          @ [LF] @ replicate 80 (CHR ''='') @ [LF, LF]
          @ ''Query: player_locations'' @ [LF] @ replicate 30 (CHR ''-'') @ [LF]
          @ ''SQL: '' @ s2 @ [LF, LF]
          @ ''Error executing query: relation player_location does not exist'' @ [LF, LF]
          @ ''Query: recent_activity'' @ [LF] @ replicate 30 (CHR ''-'') @ [LF]
          @ ''SQL: '' @ s3 @ [LF, LF]
          @ ''Error executing query: current transaction is aborted'' @ [LF, LF]))"
    using conjunct2 [OF conjunct2 [OF r]]
    by (simp add: q a0 a1 a2 a3 str_nat.simps digit_def str_int_def)
  then have f: "files (snd (export_sample_queries query_env demo_world)) (results_file demo_world) =
       Some (Text (''RuneLiteAI Database Sample Query Results'' @ [LF]
          @ replicate 50 (CHR ''='') @ [LF, LF]
          @ ''Query: sessions_overview'' @ [LF] @ replicate 30 (CHR ''-'') @ [LF]
          @ ''SQL: '' @ snd (queries ! 0) @ [LF, LF]
          @ ''Results (1 rows):'' @ [LF]
          @ ''session_id | player_name | start_time | end_time | duration_minutes'' @ [LF]
          @ replicate 80 (CHR ''-'') @ [LF]
          @ ''1 | ann | 2024-01-05 10:00:00 | None | None'' @ [LF]
          @ [LF] @ replicate 80 (CHR ''='') @ [LF, LF]
          @ ''Query: tick_performance'' @ [LF] @ replicate 30 (CHR ''-'') @ [LF]
          @ ''SQL: '' @ snd (queries ! 1) @ [LF, LF]
          @ ''Results (0 rows):'' @ [LF]
          @ ''session_id | avg_processing_ms | tick_count | min_processing_ms | max_processing_ms''
          @ [LF]
          @ replicate 80 (CHR ''-'') @ [LF]
          @ [LF] @ replicate 80 (CHR ''='') @ [LF, LF]
          @ ''Query: player_locations'' @ [LF] @ replicate 30 (CHR ''-'') @ [LF]
          @ ''SQL: '' @ snd (queries ! 2) @ [LF, LF]
          @ ''Error executing query: relation player_location does not exist'' @ [LF, LF]
          @ ''Query: recent_activity'' @ [LF] @ replicate 30 (CHR ''-'') @ [LF]
          @ ''SQL: '' @ snd (queries ! 3) @ [LF, LF]
          @ ''Error executing query: current transaction is aborted'' @ [LF, LF]))"
    unfolding s0_def s1_def s2_def s3_def .
  from a2 a3 have b: "sample_answer query_env (snd (queries ! 2))
       = Inl (Error ''relation player_location does not exist'')"
    "sample_answer query_env (snd (queries ! 3)) = Inl (Error ''current transaction is aborted'')"
    unfolding s2_def s3_def .
  from h1 h2 h4 b ok f show ?thesis by (intro conjI)
qed

section \<open>Properties of the script\<close>

lemma run_extraction_success:
  "run_extraction e w = (Inr u, w') \<Longrightarrow> \<exists>d. last (console w') = SUCCESS_Completed d"
  unfolding run_extraction_def
  by (simp add: print_def split: prod.split_asm sum.split_asm) auto

text \<open>
  Claim C7, as amended. The script ends with exit status zero on each of its three paths:
  after the banner of success when the extraction returns, after the error banner when an
  \<^verbatim>\<open>Exception\<close> leaves the extraction, and after the message of cancellation, on a handler
  of its own, when a keyboard interrupt leaves it.
\<close>

theorem main_exit_status:
  "fst (main e fs ds) = 0
   \<and> (fst (run_extraction e (init_world fs ds)) = Inr ()
        \<longrightarrow> (\<exists>d. last (console (snd (main e fs ds))) = SUCCESS_Completed d))
   \<and> (\<forall>m. fst (run_extraction e (init_world fs ds)) = Inl (Error m)
        \<longrightarrow> last (console (snd (main e fs ds))) = ERROR_Failed m)
   \<and> (fst (run_extraction e (init_world fs ds)) = Inl KeyboardInterrupt
        \<longrightarrow> last (console (snd (main e fs ds))) = WARN_Cancelled)"
proof -
  obtain r w where run: "run_extraction e (init_world fs ds) = (r, w)"
    by (cases "run_extraction e (init_world fs ds)")
  show ?thesis
  proof (cases r)
    case (Inl x)
    with run show ?thesis by (cases x) (simp_all add: main_def print_def)
  next
    case (Inr u)
    with run run_extraction_success [of e "init_world fs ds" u w] show ?thesis
      by (simp add: main_def)
  qed
qed

lemma demo_run_ok: "fst (run_extraction demo_env (init_world Map.empty {})) = Inr ()"
  by (simp add: run_extraction_def connect_def create_output_structure_def Let_def
      get_all_tables_def select_tables_def collect_info.simps get_table_info_def select_count_def
      export_table_to_csv_def csv_try_def export_table_to_json_def json_try_def select_limit_def
      generate_summary_report_def export_sample_queries_def queries_def
      demo_env_def demo_select_def demo_columns_def init_world_def print_def
      split: prod.splits)

theorem main_exit_status_witness:
  "fst (run_extraction demo_env (init_world Map.empty {})) = Inr ()
   \<and> fst (main demo_env Map.empty {}) = 0
   \<and> (\<exists>d. last (console (snd (main demo_env Map.empty {}))) = SUCCESS_Completed d)"
proof -
  from main_exit_status [of demo_env Map.empty "{}"] demo_run_ok show ?thesis by simp
qed

text \<open>
  Claim C7 as stated fails when the server cannot be reached: the exception leaves the
  extraction, the error banner is printed, and the exit status is zero.
\<close>

theorem main_exit_status_counterexample:
  "fst (run_extraction unreachable_env (init_world Map.empty {})) = Inl (Error ''connection refused'')
   \<and> console (snd (main unreachable_env Map.empty {}))
       = [Starting, ERROR_Connection ''connection refused'', ERROR_Failed ''connection refused'']
   \<and> fst (main unreachable_env Map.empty {}) = 0"
  by (simp add: main_def run_extraction_def connect_def unreachable_env_def demo_env_def
      init_world_def print_def)


section \<open>Properties of the directory name\<close>















lemma under_output_dir: "under d (d @ CHR ''/'' # rest)"
  by (simp add: under_def)



















section \<open>Properties of the schema inspector\<close>

text \<open>
  Claim C9 at the server where \<^verbatim>\<open>pgbench\<close> has created \<open>pgbench_accounts\<close> in schema
  \<open>public\<close>. In \<^verbatim>\<open>NOT LIKE 'pg_%'\<close> the underscore stands for any one character, so the
  pattern matches every name that starts with \<open>pg\<close> and has a third character: the user
  table \<open>pgbench_accounts\<close> is left out of the list, and with it out of the exports and
  the summary.
\<close>

theorem get_all_tables_drops_pgbench:
  "(''public'', ''pgbench_accounts'') \<in> set (catalog pgbench_env)
   \<and> like ''pgbench_accounts'' ''pg_%''
   \<and> fst (get_all_tables pgbench_env demo_world) = Inr [''game_ticks'', ''sessions'']"
  by (simp add: get_all_tables_def select_tables_def pgbench_env_def demo_env_def demo_world_def)

end
